theory Spec2Isabelle
  imports Complex_Main
begin

section \<open>Values of the parsed document\<close>

text \<open>
  The converter works on the value that \<^verbatim>\<open>JSON.parse\<close> or \<^verbatim>\<open>yaml.load\<close> returns and
  walks it without types (\<^verbatim>\<open>any\<close>). A value is one of JavaScript's. A parsed
  document holds no \<^verbatim>\<open>undefined\<close>: reading an absent property gives \<open>None\<close> of
  \<open>jsval option\<close>, and \<open>Undefined\<close> stands only in a synthesized sample, where the
  source stores what it has read. An object is the list of its own properties in the
  order \<^verbatim>\<open>Object.entries\<close> lists them, with distinct keys. Numbers are rationals (every
  finite double is one). Strings are lists of characters; the case conversions below
  are those of ASCII letters.

  Outside the model: properties that JavaScript objects inherit (\<^verbatim>\<open>constructor\<close>,
  \<^verbatim>\<open>toString\<close>, ...) and the conversion of strings, arrays and objects to numbers and
  of non-strings to strings; where the source would convert, the model stops with
  \<open>NotModelled\<close>.
\<close>

datatype jsval =
    Undefined
  | Null
  | Bool bool
  | Num rat
  | Str string
  | Arr "jsval list"
  | Obj "(string \<times> jsval) list"

datatype error = TypeError | NotModelled

fun truthy :: "jsval \<Rightarrow> bool" where
  "truthy Undefined = False"
| "truthy Null = False"
| "truthy (Bool b) = b"
| "truthy (Num n) = (n \<noteq> 0)"
| "truthy (Str s) = (s \<noteq> [])"
| "truthy (Arr xs) = True"
| "truthy (Obj kvs) = True"

text \<open>A value that may be \<^verbatim>\<open>undefined\<close>, kept when it is truthy: \<^verbatim>\<open>if (x) { ... x ... }\<close>.\<close>

definition if_truthy :: "jsval option \<Rightarrow> jsval option" where
  "if_truthy u = (case u of None \<Rightarrow> None | Some v \<Rightarrow> if truthy v then Some v else None)"

subsection \<open>Strings\<close>

definition digit_char :: "nat \<Rightarrow> char" where
  "digit_char d = ''0123456789'' ! d"

fun show_nat :: "nat \<Rightarrow> string" where
  "show_nat n = (if n < 10 then [digit_char n] else show_nat (n div 10) @ [digit_char (n mod 10)])"

declare show_nat.simps [simp del]

definition toLowerChar :: "char \<Rightarrow> char" where
  "toLowerChar c =
     (case map_of (zip ''ABCDEFGHIJKLMNOPQRSTUVWXYZ'' ''abcdefghijklmnopqrstuvwxyz'') c of
        Some d \<Rightarrow> d | None \<Rightarrow> c)"

definition toUpperChar :: "char \<Rightarrow> char" where
  "toUpperChar c =
     (case map_of (zip ''abcdefghijklmnopqrstuvwxyz'' ''ABCDEFGHIJKLMNOPQRSTUVWXYZ'') c of
        Some d \<Rightarrow> d | None \<Rightarrow> c)"

definition toLowerCase :: "string \<Rightarrow> string" where
  "toLowerCase s = map toLowerChar s"

definition toUpperCase :: "string \<Rightarrow> string" where
  "toUpperCase s = map toUpperChar s"

fun startsWith :: "string \<Rightarrow> string \<Rightarrow> bool" where
  "startsWith s [] = True"
| "startsWith [] (p # ps) = False"
| "startsWith (c # cs) (p # ps) = (c = p \<and> startsWith cs ps)"

text \<open>\<^verbatim>\<open>s.includes(sub)\<close>: \<open>sub\<close> occurs in \<open>s\<close> as a contiguous substring.\<close>

fun str_includes :: "string \<Rightarrow> string \<Rightarrow> bool" where
  "str_includes [] sub = (sub = [])"
| "str_includes (c # cs) sub = (startsWith (c # cs) sub \<or> str_includes cs sub)"

text \<open>\<^verbatim>\<open>s.replace(pat, rep)\<close> with a string pattern: the first occurrence only.\<close>

fun replace_first :: "string \<Rightarrow> string \<Rightarrow> string \<Rightarrow> string" where
  "replace_first pat rep [] = (if pat = [] then rep else [])"
| "replace_first pat rep (c # cs) =
     (if startsWith (c # cs) pat then rep @ drop (length pat) (c # cs)
      else c # replace_first pat rep cs)"

text \<open>\<^verbatim>\<open>s.split(sep)\<close> for a separator of one character; the empty string gives one empty piece.\<close>

fun str_split :: "char \<Rightarrow> string \<Rightarrow> string list" where
  "str_split sep [] = [[]]"
| "str_split sep (c # cs) =
     (if c = sep then [] # str_split sep cs
      else (case str_split sep cs of [] \<Rightarrow> [[c]] | w # ws \<Rightarrow> (c # w) # ws))"

subsection \<open>Property access\<close>

text \<open>
  \<^verbatim>\<open>Object.entries(v)\<close> for a value that is neither \<^verbatim>\<open>null\<close> nor \<^verbatim>\<open>undefined\<close>: the own
  properties of an object, the indexed elements of an array, the indexed characters of a
  string, nothing for a number or a boolean.
\<close>

fun entries :: "jsval \<Rightarrow> (string \<times> jsval) list" where
  "entries (Obj kvs) = kvs"
| "entries (Arr xs) = zip (map show_nat [0..<length xs]) xs"
| "entries (Str s) = zip (map show_nat [0..<length s]) (map (\<lambda>c. Str [c]) s)"
| "entries v = []"

text \<open>\<^verbatim>\<open>v[k]\<close> for such a value: an own property, or the \<^verbatim>\<open>length\<close> of an array or string.\<close>

fun has_length :: "jsval \<Rightarrow> nat option" where
  "has_length (Arr xs) = Some (length xs)"
| "has_length (Str s) = Some (length s)"
| "has_length v = None"

definition get :: "jsval \<Rightarrow> string \<Rightarrow> jsval option" where
  "get v k =
     (case (if k = ''length'' then has_length v else None) of
        Some n \<Rightarrow> Some (Num (of_nat n))
      | None \<Rightarrow> map_of (entries v) k)"

text \<open>\<^verbatim>\<open>v?.[k]\<close>: \<^verbatim>\<open>undefined\<close> when \<open>v\<close> is \<^verbatim>\<open>null\<close> or \<^verbatim>\<open>undefined\<close>.\<close>

fun opt_get :: "jsval option \<Rightarrow> string \<Rightarrow> jsval option" where
  "opt_get None k = None"
| "opt_get (Some Undefined) k = None"
| "opt_get (Some Null) k = None"
| "opt_get (Some v) k = get v k"

text \<open>\<^verbatim>\<open>obj[key] = v\<close> on a plain object: the key \<^verbatim>\<open>__proto__\<close> reaches the inherited
  setter and creates no property; an existing key keeps its place.\<close>

definition obj_set :: "(string \<times> jsval) list \<Rightarrow> string \<Rightarrow> jsval \<Rightarrow> (string \<times> jsval) list" where
  "obj_set obj key v =
     (if key = ''__proto__'' then obj
      else if key \<in> fst ` set obj then map (\<lambda>(k, x). if k = key then (k, v) else (k, x)) obj
      else obj @ [(key, v)])"

subsection \<open>Numbers\<close>

text \<open>ECMAScript's ToNumber, on \<^verbatim>\<open>null\<close>, booleans and numbers.\<close>

fun ToNumber :: "jsval \<Rightarrow> error + rat" where
  "ToNumber Null = Inr 0"
| "ToNumber (Bool b) = Inr (if b then 1 else 0)"
| "ToNumber (Num n) = Inr n"
| "ToNumber v = Inl NotModelled"

definition Math_max :: "jsval \<Rightarrow> rat \<Rightarrow> error + jsval" where
  "Math_max a b = (case ToNumber a of Inl e \<Rightarrow> Inl e | Inr x \<Rightarrow> Inr (Num (max x b)))"

definition Math_min :: "jsval \<Rightarrow> rat \<Rightarrow> error + jsval" where
  "Math_min a b = (case ToNumber a of Inl e \<Rightarrow> Inl e | Inr x \<Rightarrow> Inr (Num (min x b)))"

text \<open>\<^verbatim>\<open>v > 0\<close>: false for \<^verbatim>\<open>undefined\<close>, which converts to NaN.\<close>

definition gt_zero :: "jsval option \<Rightarrow> error + bool" where
  "gt_zero u =
     (case u of
        None \<Rightarrow> Inr False
      | Some v \<Rightarrow> (case ToNumber v of Inl e \<Rightarrow> Inl e | Inr x \<Rightarrow> Inr (0 < x)))"

section \<open>Resolving references\<close>

text \<open>
  \<^verbatim>\<open>resolveSchema\<close>: a schema with a truthy \<^verbatim>\<open>$ref\<close> is replaced by the node the pointer
  names, found by successive property lookup from the document root; a lookup that ends
  in a falsy value gives the empty object. The target is returned as it is, also when it
  is a reference itself. Reading \<^verbatim>\<open>$ref\<close> of \<^verbatim>\<open>null\<close> and calling \<^verbatim>\<open>replace\<close> on a \<^verbatim>\<open>$ref\<close> that
  is not a string raise a TypeError.
\<close>

definition or_empty :: "jsval option \<Rightarrow> jsval" where
  "or_empty resolved = (case if_truthy resolved of None \<Rightarrow> Obj [] | Some v \<Rightarrow> v)"

definition refPath :: "string \<Rightarrow> string list" where
  "refPath r = str_split CHR ''/'' (replace_first ''#/'' [] r)"

definition resolveSchema :: "jsval \<Rightarrow> jsval \<Rightarrow> error + jsval" where
  "resolveSchema schema spec =
     (case schema of
        Undefined \<Rightarrow> Inl TypeError
      | Null \<Rightarrow> Inl TypeError
      | _ \<Rightarrow>
          (case if_truthy (get schema ''$ref'') of
             None \<Rightarrow> Inr schema
           | Some (Str r) \<Rightarrow> Inr (or_empty (foldl opt_get (Some spec) (refPath r)))
           | Some _ \<Rightarrow> Inl TypeError))"

section \<open>Sample synthesis\<close>

text \<open>
  The state of one \<^verbatim>\<open>generateRequestBody\<close> call: the local \<^verbatim>\<open>idCounter\<close>, and how many
  values \<^verbatim>\<open>Math.random\<close> has handed out so far. The environment gives what the
  source reads from outside: the calendar year of \<^verbatim>\<open>new Date()\<close> and the sequence of
  values of \<^verbatim>\<open>Math.random\<close>.
\<close>

record synth_state =
  idCounter :: nat
  draws :: nat

definition capitalize :: "string \<Rightarrow> string" where
  "capitalize s = toUpperCase (take 1 s) @ drop 1 s"

definition next_id :: "synth_state \<Rightarrow> synth_state" where
  "next_id st = st\<lparr>idCounter := idCounter st + 1\<rparr>"

definition random_int :: "(nat \<Rightarrow> rat) \<Rightarrow> int \<Rightarrow> synth_state \<Rightarrow> jsval \<times> synth_state" where
  "random_int rnd n st =
     (Num (of_int (\<lfloor>rnd (draws st) * of_int n\<rfloor> + 1)), st\<lparr>draws := draws st + 1\<rparr>)"

text \<open>The name rules of each type, in the order of the source; \<open>None\<close> when no rule applies.\<close>

definition stringByName :: "string \<Rightarrow> synth_state \<Rightarrow> (jsval \<times> synth_state) option" where
  "stringByName propertyName st =
     (let lowerName = toLowerCase propertyName in
      if str_includes lowerName ''id'' then Some (Str (show_nat (idCounter st)), next_id st)
      else if str_includes lowerName ''name'' then Some (Str (''sample'' @ capitalize propertyName), st)
      else if str_includes lowerName ''email'' then Some (Str ''sample@example.com'', st)
      else if str_includes lowerName ''url'' \<or> str_includes lowerName ''link''
        then Some (Str ''https://example.com'', st)
      else if str_includes lowerName ''phone'' then Some (Str ''+1234567890'', st)
      else if str_includes lowerName ''address'' then Some (Str ''123 Sample St'', st)
      else if str_includes lowerName ''city'' then Some (Str ''Sample City'', st)
      else if str_includes lowerName ''country'' then Some (Str ''Sample Country'', st)
      else if str_includes lowerName ''description'' \<or> str_includes lowerName ''comment''
        then Some (Str ''Sample description'', st)
      else if str_includes lowerName ''status'' then Some (Str ''active'', st)
      else if str_includes lowerName ''type'' \<or> str_includes lowerName ''category''
        then Some (Str ''sample'', st)
      else None)"

definition integerByName ::
  "int \<Rightarrow> (nat \<Rightarrow> rat) \<Rightarrow> string \<Rightarrow> synth_state \<Rightarrow> (jsval \<times> synth_state) option" where
  "integerByName year rnd propertyName st =
     (let lowerName = toLowerCase propertyName in
      if str_includes lowerName ''id'' then Some (Num (of_nat (idCounter st)), next_id st)
      else if str_includes lowerName ''count'' \<or> str_includes lowerName ''quantity''
        then Some (Num 5, st)
      else if str_includes lowerName ''age'' then Some (Num 25, st)
      else if str_includes lowerName ''year'' then Some (Num (of_int year), st)
      else if str_includes lowerName ''month'' then Some (random_int rnd 12 st)
      else if str_includes lowerName ''day'' then Some (random_int rnd 28 st)
      else if str_includes lowerName ''price'' \<or> str_includes lowerName ''amount''
        then Some (Num 100, st)
      else None)"

definition numberByName :: "string \<Rightarrow> synth_state \<Rightarrow> (jsval \<times> synth_state) option" where
  "numberByName propertyName st =
     (let lowerName = toLowerCase propertyName in
      if str_includes lowerName ''price'' \<or> str_includes lowerName ''amount''
         \<or> str_includes lowerName ''cost'' then Some (Num (9999 / 100), st)
      else if str_includes lowerName ''rate'' \<or> str_includes lowerName ''percentage''
        then Some (Num (15 / 100), st)
      else if str_includes lowerName ''weight'' then Some (Num (15 / 10), st)
      else if str_includes lowerName ''height'' then Some (Num (175 / 100), st)
      else None)"

definition booleanByName :: "string \<Rightarrow> synth_state \<Rightarrow> (jsval \<times> synth_state) option" where
  "booleanByName propertyName st =
     (let lowerName = toLowerCase propertyName in
      if str_includes lowerName ''active'' \<or> str_includes lowerName ''enabled''
         \<or> str_includes lowerName ''available'' then Some (Bool True, st)
      else if str_includes lowerName ''deleted'' \<or> str_includes lowerName ''disabled''
         \<or> str_includes lowerName ''hidden'' then Some (Bool False, st)
      else None)"

text \<open>\<^verbatim>\<open>if (propertyName) { ... }\<close>: the rules run for a name that is given and not empty.\<close>

definition byName ::
  "(string \<Rightarrow> synth_state \<Rightarrow> (jsval \<times> synth_state) option) \<Rightarrow> string option \<Rightarrow> synth_state
     \<Rightarrow> (jsval \<times> synth_state) option" where
  "byName rules propertyName st =
     (case propertyName of
        None \<Rightarrow> None
      | Some n \<Rightarrow> if n = [] then None else rules n st)"

text \<open>The branches of \<^verbatim>\<open>switch (resolvedSchema.type)\<close> that do not recurse.\<close>

definition stringSample :: "jsval \<Rightarrow> string option \<Rightarrow> synth_state \<Rightarrow> error + jsval \<times> synth_state" where
  "stringSample resolvedSchema propertyName st =
     (case byName stringByName propertyName st of
        Some r \<Rightarrow> Inr r
      | None \<Rightarrow>
          (case if_truthy (get resolvedSchema ''enum'') of
             Some enum \<Rightarrow>
               (case gt_zero (get enum ''length'') of
                  Inl e \<Rightarrow> Inl e
                | Inr b \<Rightarrow>
                    if b then
                      (case get enum ''0'' of
                         None \<Rightarrow> Inr (Undefined, st)
                       | Some v \<Rightarrow> Inr (v, st))
                    else Inr (Str ''sample'', st))
           | None \<Rightarrow> Inr (Str ''sample'', st)))"

definition bounded :: "jsval \<Rightarrow> rat \<Rightarrow> rat \<Rightarrow> rat \<Rightarrow> synth_state \<Rightarrow> error + jsval \<times> synth_state" where
  "bounded resolvedSchema lo hi dflt st =
     (case get resolvedSchema ''minimum'' of
        Some minimum \<Rightarrow>
          (case Math_max minimum lo of Inl e \<Rightarrow> Inl e | Inr v \<Rightarrow> Inr (v, st))
      | None \<Rightarrow>
          (case get resolvedSchema ''maximum'' of
             Some maximum \<Rightarrow>
               (case Math_min maximum hi of Inl e \<Rightarrow> Inl e | Inr v \<Rightarrow> Inr (v, st))
           | None \<Rightarrow> Inr (Num dflt, st)))"

definition integerSample ::
  "int \<Rightarrow> (nat \<Rightarrow> rat) \<Rightarrow> jsval \<Rightarrow> string option \<Rightarrow> synth_state \<Rightarrow> error + jsval \<times> synth_state" where
  "integerSample year rnd resolvedSchema propertyName st =
     (case byName (integerByName year rnd) propertyName st of
        Some r \<Rightarrow> Inr r
      | None \<Rightarrow> bounded resolvedSchema 1 100 1 st)"

definition numberSample :: "jsval \<Rightarrow> string option \<Rightarrow> synth_state \<Rightarrow> error + jsval \<times> synth_state" where
  "numberSample resolvedSchema propertyName st =
     (case byName numberByName propertyName st of
        Some r \<Rightarrow> Inr r
      | None \<Rightarrow> bounded resolvedSchema 1 100 1 st)"

definition booleanSample :: "string option \<Rightarrow> synth_state \<Rightarrow> error + jsval \<times> synth_state" where
  "booleanSample propertyName st =
     (case byName booleanByName propertyName st of
        Some r \<Rightarrow> Inr r
      | None \<Rightarrow> Inr (Bool True, st))"

text \<open>
  The loop over \<^verbatim>\<open>Object.entries(resolvedSchema.properties)\<close>: each property is
  synthesized under its key and stored in \<open>obj\<close>; an exception ends the loop, and a call
  that does not return leaves the loop without a result (\<open>None\<close>).
\<close>

fun for_entries ::
  "(jsval \<Rightarrow> string \<Rightarrow> synth_state \<Rightarrow> (error + jsval \<times> synth_state) option)
     \<Rightarrow> (string \<times> jsval) list \<Rightarrow> (string \<times> jsval) list \<Rightarrow> synth_state
     \<Rightarrow> (error + (string \<times> jsval) list \<times> synth_state) option" where
  "for_entries g [] obj st = Some (Inr (obj, st))"
| "for_entries g ((key, prop) # rest) obj st =
     Option.bind (g prop key st)
       (\<lambda>r. case r of
               Inl e \<Rightarrow> Some (Inl e)
             | Inr (v, st') \<Rightarrow> for_entries g rest (obj_set obj key v) st')"

lemma for_entries_mono [partial_function_mono]:
  assumes "\<And>prop key st. mono_option (\<lambda>f. G f prop key st)"
  shows "mono_option (\<lambda>f. for_entries (G f) es obj st)"
proof (induction es arbitrary: obj st)
  case Nil
  show ?case by (simp add: option.const_mono)
next
  case (Cons a es)
  obtain k p where a: "a = (k, p)" by (cases a)
  have step: "mono_option (\<lambda>f. case r of Inl e \<Rightarrow> Some (Inl e)
                 | Inr (v, st') \<Rightarrow> for_entries (G f) es (obj_set obj k v) st')" for r
  proof (cases r)
    case (Inl e)
    then show ?thesis by (simp add: option.const_mono)
  next
    case (Inr b)
    then show ?thesis by (cases b) (simp add: Cons.IH)
  qed
  show ?case
    unfolding a for_entries.simps
    by (rule bind_mono [OF assms step])
qed

text \<open>\<^verbatim>\<open>examples && Array.isArray(examples) && examples.length > 0\<close>, then \<^verbatim>\<open>examples[0]\<close>.\<close>

definition first_example :: "jsval option \<Rightarrow> jsval option" where
  "first_example examples = (case examples of Some (Arr (x # xs)) \<Rightarrow> Some x | _ \<Rightarrow> None)"

text \<open>
  \<^verbatim>\<open>generateSampleJson\<close>. A recursion that never ends has the value \<open>None\<close>; in the
  browser it stops when the call stack is exhausted.
\<close>

partial_function (option) generateSampleJson ::
  "int \<Rightarrow> (nat \<Rightarrow> rat) \<Rightarrow> jsval \<Rightarrow> jsval \<Rightarrow> string option \<Rightarrow> synth_state
     \<Rightarrow> (error + jsval \<times> synth_state) option" where
  "generateSampleJson year rnd spec schema propertyName st =
     (case resolveSchema schema spec of
        Inl e \<Rightarrow> Some (Inl e)
      | Inr resolvedSchema \<Rightarrow>
          (case get resolvedSchema ''example'' of
             Some example \<Rightarrow> Some (Inr (example, st))
           | None \<Rightarrow>
            (case first_example (get resolvedSchema ''examples'') of
               Some x \<Rightarrow> Some (Inr (x, st))
             | None \<Rightarrow>
                 if get resolvedSchema ''type'' = Some (Str ''object'') then
                   (case if_truthy (get resolvedSchema ''properties'') of
                      Some properties \<Rightarrow>
                        Option.bind
                          (for_entries
                             (\<lambda>prop key s. generateSampleJson year rnd spec prop (Some key) s)
                             (entries properties) [] st)
                          (\<lambda>r. case r of
                                  Inl e \<Rightarrow> Some (Inl e)
                                | Inr (obj, st') \<Rightarrow> Some (Inr (Obj obj, st')))
                    | None \<Rightarrow> Some (Inr (Obj [], st)))
                 else if get resolvedSchema ''type'' = Some (Str ''array'') then
                   (case if_truthy (get resolvedSchema ''items'') of
                      Some items \<Rightarrow>
                        Option.bind
                          (generateSampleJson year rnd spec items None st)
                          (\<lambda>r. case r of
                                  Inl e \<Rightarrow> Some (Inl e)
                                | Inr (v, st') \<Rightarrow> Some (Inr (Arr [v], st')))
                    | None \<Rightarrow> Some (Inr (Arr [], st)))
                 else if get resolvedSchema ''type'' = Some (Str ''string'') then
                   Some (stringSample resolvedSchema propertyName st)
                 else if get resolvedSchema ''type'' = Some (Str ''integer'') then
                   Some (integerSample year rnd resolvedSchema propertyName st)
                 else if get resolvedSchema ''type'' = Some (Str ''number'') then
                   Some (numberSample resolvedSchema propertyName st)
                 else if get resolvedSchema ''type'' = Some (Str ''boolean'') then
                   Some (booleanSample propertyName st)
                 else Some (Inr (Null, st)))))"

declare generateSampleJson.simps [code]

section \<open>Operations\<close>

text \<open>
  The two loops that fill \<^verbatim>\<open>operations\<close>: over the entries of \<^verbatim>\<open>spec.paths || {}\<close> and,
  for each path, over the entries of its path item. Only the seven method keys push an
  operation. \<^verbatim>\<open>Object.entries(null)\<close> and reading \<^verbatim>\<open>operationId\<close> of \<^verbatim>\<open>null\<close> raise a
  TypeError, which ends the whole conversion. The list returned is what the source has
  pushed, in the order of the pushes. \<open>spec\<close> is the parsed document, which is not
  \<^verbatim>\<open>null\<close>: \<^verbatim>\<open>handleGenerateJMeter\<close> rejects everything but an object with \<^verbatim>\<open>paths\<close> before
  it calls \<^verbatim>\<open>generateJMeterXml\<close>.
\<close>

record operation =
  op_path :: string
  op_method :: string
  operationId :: "jsval option"
  summary :: "jsval option"
  parameters :: "jsval option"
  requestBody :: "jsval option"
  tags :: "jsval option"

definition httpMethods :: "string list" where
  "httpMethods = [''get'', ''post'', ''put'', ''delete'', ''patch'', ''head'', ''options'']"

definition mk_operation :: "string \<Rightarrow> string \<Rightarrow> jsval \<Rightarrow> operation" where
  "mk_operation path method_key operation =
     \<lparr>op_path = path,
      op_method = toUpperCase method_key,
      operationId = get operation ''operationId'',
      summary = get operation ''summary'',
      parameters = get operation ''parameters'',
      requestBody = get operation ''requestBody'',
      tags = get operation ''tags''\<rparr>"

fun itemOperations :: "string \<Rightarrow> (string \<times> jsval) list \<Rightarrow> error + operation list" where
  "itemOperations path [] = Inr []"
| "itemOperations path ((method_key, operation) # rest) =
     (if method_key \<in> set httpMethods then
        (case operation of
           Undefined \<Rightarrow> Inl TypeError
         | Null \<Rightarrow> Inl TypeError
         | _ \<Rightarrow>
             (case itemOperations path rest of
                Inl e \<Rightarrow> Inl e
              | Inr ops \<Rightarrow> Inr (mk_operation path method_key operation # ops)))
      else itemOperations path rest)"

fun pathOperations :: "(string \<times> jsval) list \<Rightarrow> error + operation list" where
  "pathOperations [] = Inr []"
| "pathOperations ((path, pathItem) # rest) =
     (case pathItem of
        Undefined \<Rightarrow> Inl TypeError
      | Null \<Rightarrow> Inl TypeError
      | _ \<Rightarrow>
          (case itemOperations path (entries pathItem) of
             Inl e \<Rightarrow> Inl e
           | Inr ops \<Rightarrow>
               (case pathOperations rest of
                  Inl e \<Rightarrow> Inl e
                | Inr ops' \<Rightarrow> Inr (ops @ ops'))))"

definition operations :: "jsval \<Rightarrow> error + operation list" where
  "operations spec = pathOperations (entries (or_empty (get spec ''paths'')))"

section \<open>Samplers\<close>

text \<open>
  \<^verbatim>\<open>op.path.replace(/{([^}]+)}/g, '${$1}')\<close>. At an opening brace the pattern matches
  when at least one character other than a closing brace follows and the run of such
  characters ends in a closing brace; the match is replaced and the scan goes on behind
  it. Anywhere else the character is copied.
\<close>

function pathWithoutParams :: "string \<Rightarrow> string" where
  "pathWithoutParams [] = []"
| "pathWithoutParams (c # cs) =
     (let name = takeWhile (\<lambda>x. x \<noteq> CHR ''}'') cs;
          rest = dropWhile (\<lambda>x. x \<noteq> CHR ''}'') cs
      in if c = CHR ''{'' \<and> name \<noteq> [] \<and> rest \<noteq> []
         then ''${'' @ name @ ''}'' @ pathWithoutParams (tl rest)
         else c # pathWithoutParams cs)"
  by pat_completeness auto
termination
proof (relation "measure length")
  fix c :: char and cs name rest :: string
  assume "rest = dropWhile (\<lambda>x. x \<noteq> CHR ''}'') cs"
  then have "length rest \<le> length cs"
    by (simp add: length_dropWhile_le)
  then show "(tl rest, c # cs) \<in> measure length"
    by simp
qed simp_all

text \<open>
  The parts of the base URL. \<^verbatim>\<open>new URL\<close> belongs to the platform: the parser is a
  parameter, \<open>None\<close> where the constructor throws.
\<close>

record url =
  protocol :: string
  hostname :: string
  port :: string
  pathname :: string

record urlParts =
  parts_protocol :: string
  parts_domain :: string
  parts_port :: string
  parts_path :: string

text \<open>\<^verbatim>\<open>s.replace(/^https?:\/\//, '')\<close>.\<close>

definition strip_scheme :: "string \<Rightarrow> string" where
  "strip_scheme s =
     (if startsWith s ''https://'' then drop 8 s
      else if startsWith s ''http://'' then drop 7 s
      else s)"

definition mk_urlParts :: "(string \<Rightarrow> url option) \<Rightarrow> string \<Rightarrow> urlParts" where
  "mk_urlParts parseURL baseUrl =
     (case parseURL baseUrl of
        Some u \<Rightarrow>
          \<lparr>parts_protocol = replace_first '':'' [] (protocol u),
           parts_domain = hostname u,
           parts_port = (if port u \<noteq> [] then port u
                         else if protocol u = ''https:'' then ''443'' else ''80''),
           parts_path = (if pathname u \<noteq> ''/'' then pathname u else [])\<rparr>
      | None \<Rightarrow>
          \<lparr>parts_protocol = ''https'',
           parts_domain = (case str_split CHR ''/'' (strip_scheme baseUrl) of
                             [] \<Rightarrow> [] | w # ws \<Rightarrow> w),
           parts_port = [],
           parts_path = []\<rparr>)"

text \<open>
  \<^verbatim>\<open>generateRequestBody\<close>. \<^verbatim>\<open>JSON.stringify\<close> belongs to the platform: what it writes
  for a value is a parameter, and for \<^verbatim>\<open>undefined\<close> it returns \<^verbatim>\<open>undefined\<close>, here \<open>None\<close>.
  The counter starts at 1 in every call; the position in the sequence of random values is
  handed on from call to call.
\<close>

definition JSON_stringify :: "(jsval \<Rightarrow> string) \<Rightarrow> jsval \<Rightarrow> string option" where
  "JSON_stringify stringify v = (case v of Undefined \<Rightarrow> None | _ \<Rightarrow> Some (stringify v))"

definition generateRequestBody ::
  "(jsval \<Rightarrow> string) \<Rightarrow> int \<Rightarrow> (nat \<Rightarrow> rat) \<Rightarrow> jsval \<Rightarrow> jsval option \<Rightarrow> nat
     \<Rightarrow> (error + string option \<times> nat) option" where
  "generateRequestBody stringify year rnd spec body d =
     (case if_truthy (opt_get body ''content'') of
        None \<Rightarrow> Some (Inr (Some [], d))
      | Some content \<Rightarrow>
          (case if_truthy (opt_get (get content ''application/json'') ''schema'') of
             None \<Rightarrow> Some (Inr (Some [], d))
           | Some schema \<Rightarrow>
               Option.bind
                 (generateSampleJson year rnd spec schema None \<lparr>idCounter = 1, draws = d\<rparr>)
                 (\<lambda>r. case r of
                         Inl e \<Rightarrow> Some (Inl e)
                       | Inr (sampleData, st) \<Rightarrow>
                           Some (Inr (JSON_stringify stringify sampleData, draws st)))))"

text \<open>
  One sampler: the values that the template of \<^verbatim>\<open>HTTPSamplerProxy\<close> interpolates.
  \<open>bodyDataProp\<close> is \<open>Some text\<close> for the block with \<^verbatim>\<open>HTTPSampler.postBodyRaw\<close> set and
  \<open>text\<close> as \<^verbatim>\<open>Argument.value\<close>, and \<open>None\<close> for the block with no arguments.
\<close>

record sampler =
  testname :: jsval
  bodyDataProp :: "string option"
  sampler_domain :: string
  sampler_port :: string
  sampler_protocol :: string
  sampler_path :: string
  sampler_method :: string

text \<open>\<^verbatim>\<open>requestBody.replace(/"/g, '&quot;')\<close>.\<close>

definition escape_quotes :: "string \<Rightarrow> string" where
  "escape_quotes s = concat (map (\<lambda>c. if c = CHR 0x22 then ''&quot;'' else [c]) s)"

definition samplerName :: "operation \<Rightarrow> jsval" where
  "samplerName op =
     (case if_truthy (operationId op) of
        Some v \<Rightarrow> v
      | None \<Rightarrow>
          (case if_truthy (summary op) of
             Some v \<Rightarrow> v
           | None \<Rightarrow> Str (op_method op @ '' '' @ op_path op)))"

definition needsBody :: "operation \<Rightarrow> bool" where
  "needsBody op = (op_method op \<in> set [''POST'', ''PUT'', ''PATCH''])"

text \<open>\<^verbatim>\<open>requestBody ? ... : ...\<close>: the body block for a text that is not empty.\<close>

definition body_block :: "string option \<Rightarrow> string option" where
  "body_block body =
     (case body of
        None \<Rightarrow> None
      | Some s \<Rightarrow> if s \<noteq> [] then Some (escape_quotes s) else None)"

definition mk_sampler ::
  "(jsval \<Rightarrow> string) \<Rightarrow> int \<Rightarrow> (nat \<Rightarrow> rat) \<Rightarrow> jsval \<Rightarrow> urlParts \<Rightarrow> operation \<Rightarrow> nat
     \<Rightarrow> (error + sampler \<times> nat) option" where
  "mk_sampler stringify year rnd spec parts op d =
     Option.bind
       (if needsBody op then generateRequestBody stringify year rnd spec (requestBody op) d
        else Some (Inr (Some [], d)))
       (\<lambda>r. case r of
               Inl e \<Rightarrow> Some (Inl e)
             | Inr (body, d') \<Rightarrow>
                 Some (Inr (\<lparr>testname = samplerName op,
                             bodyDataProp = body_block body,
                             sampler_domain = parts_domain parts,
                             sampler_port = parts_port parts,
                             sampler_protocol = parts_protocol parts,
                             sampler_path = parts_path parts @ pathWithoutParams (op_path op),
                             sampler_method = op_method op\<rparr>, d')))"

text \<open>\<^verbatim>\<open>operations.map(...)\<close>, one operation after the other.\<close>

fun map_samplers ::
  "(jsval \<Rightarrow> string) \<Rightarrow> int \<Rightarrow> (nat \<Rightarrow> rat) \<Rightarrow> jsval \<Rightarrow> urlParts \<Rightarrow> operation list \<Rightarrow> nat
     \<Rightarrow> (error + sampler list) option" where
  "map_samplers stringify year rnd spec parts [] d = Some (Inr [])"
| "map_samplers stringify year rnd spec parts (op # ops) d =
     Option.bind (mk_sampler stringify year rnd spec parts op d)
       (\<lambda>r. case r of
               Inl e \<Rightarrow> Some (Inl e)
             | Inr (s, d') \<Rightarrow>
                 Option.bind (map_samplers stringify year rnd spec parts ops d')
                   (\<lambda>r'. case r' of
                            Inl e \<Rightarrow> Some (Inl e)
                          | Inr ss \<Rightarrow> Some (Inr (s # ss))))"

text \<open>
  \<^verbatim>\<open>generateJMeterXml\<close> up to the list of samplers that it writes into the test plan;
  \<open>d\<close> is the position in the sequence of random values when the call starts.
\<close>

definition httpSamplers ::
  "(string \<Rightarrow> url option) \<Rightarrow> (jsval \<Rightarrow> string) \<Rightarrow> int \<Rightarrow> (nat \<Rightarrow> rat) \<Rightarrow> jsval \<Rightarrow> string \<Rightarrow> nat
     \<Rightarrow> (error + sampler list) option" where
  "httpSamplers parseURL stringify year rnd spec baseUrl d =
     (case operations spec of
        Inl e \<Rightarrow> Some (Inl e)
      | Inr ops \<Rightarrow>
          map_samplers stringify year rnd spec (mk_urlParts parseURL baseUrl) ops d)"

section \<open>Loading a file\<close>

text \<open>
  What \<^verbatim>\<open>handleFileUpload\<close> does to the configuration once the file is parsed.
  \<open>parsedSpec\<close> is \<open>None\<close> when the parser threw or gave \<^verbatim>\<open>undefined\<close>: the inner
  \<^verbatim>\<open>catch\<close> leaves the configuration as it was.
\<close>

record JMeterConfig =
  threadCount :: int
  rampUpTime :: int
  loopCount :: int
  baseUrl :: string
  testPlanName :: string

fun to_string :: "jsval \<Rightarrow> error + string" where
  "to_string (Str s) = Inr s"
| "to_string v = Inl NotModelled"

definition host_url :: "jsval \<Rightarrow> jsval \<Rightarrow> error + string" where
  "host_url parsedSpec host =
     (case to_string (case if_truthy (opt_get (get parsedSpec ''schemes'') ''0'') of
                        Some v \<Rightarrow> v | None \<Rightarrow> Str ''https'') of
        Inl e \<Rightarrow> Inl e
      | Inr scheme \<Rightarrow>
          (case to_string host of
             Inl e \<Rightarrow> Inl e
           | Inr h \<Rightarrow>
               (case to_string (case if_truthy (get parsedSpec ''basePath'') of
                                  Some v \<Rightarrow> v | None \<Rightarrow> Str []) of
                  Inl e \<Rightarrow> Inl e
                | Inr basePath \<Rightarrow> Inr (scheme @ ''://'' @ h @ basePath))))"

definition handleFileUpload :: "jsval option \<Rightarrow> JMeterConfig \<Rightarrow> error + JMeterConfig" where
  "handleFileUpload parsed prev =
     (case parsed of
        None \<Rightarrow> Inr prev
      | Some parsedSpec \<Rightarrow>
          (case if_truthy (opt_get (opt_get (opt_get (Some parsedSpec) ''servers'') ''0'') ''url'') of
             Some u \<Rightarrow>
               (case to_string u of
                  Inl e \<Rightarrow> Inl e
                | Inr s \<Rightarrow> Inr (prev\<lparr>baseUrl := s\<rparr>))
           | None \<Rightarrow>
               (case if_truthy (opt_get (Some parsedSpec) ''host'') of
                  Some host \<Rightarrow>
                    (case host_url parsedSpec host of
                       Inl e \<Rightarrow> Inl e
                     | Inr s \<Rightarrow> Inr (prev\<lparr>baseUrl := s\<rparr>))
                | None \<Rightarrow> Inr prev)))"

section \<open>Reference cycles\<close>

text \<open>
  A list of schemas is a reference cycle in \<open>spec\<close> when each of them resolves to an
  object schema with no example that has a property whose schema is in the list again:
  a schema with a property that refers to the schema itself, or several schemas that
  refer to one another.
\<close>

definition recurs_into :: "jsval \<Rightarrow> jsval list \<Rightarrow> jsval \<Rightarrow> bool" where
  "recurs_into spec cycle schema =
     (case resolveSchema schema spec of
        Inl e \<Rightarrow> False
      | Inr A \<Rightarrow>
          get A ''example'' = None \<and> first_example (get A ''examples'') = None \<and>
          get A ''type'' = Some (Str ''object'') \<and>
          (case if_truthy (get A ''properties'') of
             None \<Rightarrow> False
           | Some props \<Rightarrow> list_ex (\<lambda>(key, prop). prop \<in> set cycle) (entries props)))"

section \<open>Placeholders\<close>

text \<open>
  The two forms of a path parameter: \<^verbatim>\<open>{name}\<close> in the document and \<^verbatim>\<open>${name}\<close> in the
  test plan. An identifier is a non-empty string of word characters (\<^verbatim>\<open>\w\<close>).
\<close>

definition is_word_char :: "char \<Rightarrow> bool" where
  "is_word_char c =
     (c \<in> set ''abcdefghijklmnopqrstuvwxyzABCDEFGHIJKLMNOPQRSTUVWXYZ0123456789_'')"

definition brace_form :: "string \<Rightarrow> string" where
  "brace_form name = ''{'' @ name @ ''}''"

definition dollar_form :: "string \<Rightarrow> string" where
  "dollar_form name = ''${'' @ name @ ''}''"

definition identifiers :: "string set" where
  "identifiers = {name. name \<noteq> [] \<and> list_all is_word_char name}"

section \<open>An example conversion\<close>

text \<open>
  A document with one operation, \<^verbatim>\<open>GET /pets\<close>, and what \<^verbatim>\<open>new URL\<close> gives on three base
  URLs: two that parse, with no port, and one that does not parse.
\<close>

definition example_parseURL :: "string \<Rightarrow> url option" where
  "example_parseURL s =
     (if s = ''https://api.example.com'' then
        Some \<lparr>protocol = ''https:'', hostname = ''api.example.com'', port = [], pathname = ''/''\<rparr>
      else if s = ''http://localhost/v1'' then
        Some \<lparr>protocol = ''http:'', hostname = ''localhost'', port = [], pathname = ''/v1''\<rparr>
      else None)"

definition example_spec :: jsval where
  "example_spec =
     Obj [(''openapi'', Str ''3.0.0''),
          (''paths'', Obj [(''/pets'', Obj [(''get'', Obj [(''operationId'', Str ''listPets'')])])])]"

definition example_sampler :: "string \<Rightarrow> string \<Rightarrow> string \<Rightarrow> string \<Rightarrow> sampler" where
  "example_sampler host prt proto pth =
     \<lparr>testname = Str ''listPets'', bodyDataProp = None, sampler_domain = host,
      sampler_port = prt, sampler_protocol = proto, sampler_path = pth,
      sampler_method = ''GET''\<rparr>"

section \<open>What the document declares\<close>

text \<open>
  The method keys of a document in traversal order, path by path: the keys, among those
  of each path item, that are one of the seven method names.
\<close>

definition method_keys :: "jsval \<Rightarrow> (string \<times> string) list" where
  "method_keys spec =
     concat (map (\<lambda>(path, pathItem).
                    map (\<lambda>(key, operation). (path, key))
                      (filter (\<lambda>(key, operation). key \<in> set httpMethods) (entries pathItem)))
               (entries (or_empty (get spec ''paths''))))"

text \<open>The schema at \<^verbatim>\<open>requestBody.content["application/json"].schema\<close>, by lookup alone.\<close>

definition declared_schema :: "jsval option \<Rightarrow> jsval option" where
  "declared_schema body =
     opt_get (opt_get (opt_get body ''content'') ''application/json'') ''schema''"

text \<open>
  The extraction reads the properties of every path item and of every value under a
  method key; it can do so for everything but \<^verbatim>\<open>null\<close> and \<^verbatim>\<open>undefined\<close>. The values under
  other keys are not read.
\<close>

definition nullish :: "jsval \<Rightarrow> bool" where
  "nullish v = (v = Null \<or> v = Undefined)"

definition well_formed_item :: "jsval \<Rightarrow> bool" where
  "well_formed_item pathItem =
     (\<not> nullish pathItem \<and>
      list_all (\<lambda>(key, operation). key \<in> set httpMethods \<longrightarrow> \<not> nullish operation)
        (entries pathItem))"

definition well_formed_paths :: "jsval \<Rightarrow> bool" where
  "well_formed_paths spec =
     list_all (\<lambda>(path, pathItem). well_formed_item pathItem)
       (entries (or_empty (get spec ''paths'')))"

text \<open>
  The samples of the JSON body schema of an operation: what \<^verbatim>\<open>generateSampleJson\<close> returns
  for the schema when it starts, with the counter at 1, at some position of the sequence of
  random values. The body of an operation can be synthesized when there is nothing to
  synthesize (another method, or no schema that is truthy) or the synthesis returns a
  sample at every position.
\<close>

definition body_sample :: "int \<Rightarrow> (nat \<Rightarrow> rat) \<Rightarrow> jsval \<Rightarrow> operation \<Rightarrow> jsval \<Rightarrow> bool" where
  "body_sample year rnd spec op v =
     (\<exists>schema d st.
        if_truthy (declared_schema (requestBody op)) = Some schema \<and>
        generateSampleJson year rnd spec schema None \<lparr>idCounter = 1, draws = d\<rparr>
          = Some (Inr (v, st)))"

definition body_synthesizes :: "int \<Rightarrow> (nat \<Rightarrow> rat) \<Rightarrow> jsval \<Rightarrow> operation \<Rightarrow> bool" where
  "body_synthesizes year rnd spec op =
     (case (if needsBody op then if_truthy (declared_schema (requestBody op)) else None) of
        None \<Rightarrow> True
      | Some schema \<Rightarrow>
          (\<forall>d. \<exists>v st.
             generateSampleJson year rnd spec schema None \<lparr>idCounter = 1, draws = d\<rparr>
               = Some (Inr (v, st))))"

text \<open>
  Two more example documents: path items with keys that are no method names, and
  operations with and without a JSON body schema. \<open>example_stringify\<close> stands in for
  \<^verbatim>\<open>JSON.stringify\<close>; it is right on \<^verbatim>\<open>null\<close> and on strings of plain characters.
\<close>

definition example_paths :: jsval where
  "example_paths =
     Obj [(''swagger'', Str ''2.0''),
          (''paths'',
           Obj [(''/pets'',
                 Obj [(''parameters'', Null),
                      (''get'', Obj [(''operationId'', Str ''listPets'')]),
                      (''post'', Obj [(''summary'', Str ''Add a pet'')])]),
                (''/pets/{petId}'',
                 Obj [(''delete'', Obj []), (''x-internal'', Bool True)])])]"

definition example_paths_samplers :: "sampler list" where
  "example_paths_samplers =
     [\<lparr>testname = Str ''listPets'', bodyDataProp = None,
       sampler_domain = ''api.example.com'', sampler_port = ''443'',
       sampler_protocol = ''https'', sampler_path = ''/pets'',
       sampler_method = ''GET''\<rparr>,
      \<lparr>testname = Str ''Add a pet'', bodyDataProp = None,
       sampler_domain = ''api.example.com'', sampler_port = ''443'',
       sampler_protocol = ''https'', sampler_path = ''/pets'',
       sampler_method = ''POST''\<rparr>,
      \<lparr>testname = Str ''DELETE /pets/{petId}'', bodyDataProp = None,
       sampler_domain = ''api.example.com'', sampler_port = ''443'',
       sampler_protocol = ''https'', sampler_path = ''/pets/${petId}'',
       sampler_method = ''DELETE''\<rparr>]"

definition example_stringify :: "jsval \<Rightarrow> string" where
  "example_stringify v = (case v of Str s \<Rightarrow> [CHR 0x22] @ s @ [CHR 0x22] | _ \<Rightarrow> ''null'')"

definition example_post :: jsval where
  "example_post =
     Obj [(''requestBody'',
           Obj [(''content'',
                 Obj [(''application/json'', Obj [(''schema'', Obj [(''type'', Str ''string'')])])])])]"

definition example_put :: jsval where
  "example_put =
     Obj [(''requestBody'',
           Obj [(''content'',
                 Obj [(''text/plain'', Obj [(''schema'', Obj [(''type'', Str ''string'')])])])])]"

definition example_bodies :: jsval where
  "example_bodies =
     Obj [(''openapi'', Str ''3.0.0''),
          (''paths'',
           Obj [(''/notes'',
                 Obj [(''get'', Obj []), (''post'', example_post), (''put'', example_put)])])]"

definition example_bodies_samplers :: "sampler list" where
  "example_bodies_samplers =
     [\<lparr>testname = Str ''GET /notes'', bodyDataProp = None,
       sampler_domain = ''api.example.com'', sampler_port = ''443'',
       sampler_protocol = ''https'', sampler_path = ''/notes'',
       sampler_method = ''GET''\<rparr>,
      \<lparr>testname = Str ''POST /notes'', bodyDataProp = Some ''&quot;sample&quot;'',
       sampler_domain = ''api.example.com'', sampler_port = ''443'',
       sampler_protocol = ''https'', sampler_path = ''/notes'',
       sampler_method = ''POST''\<rparr>,
      \<lparr>testname = Str ''PUT /notes'', bodyDataProp = None,
       sampler_domain = ''api.example.com'', sampler_port = ''443'',
       sampler_protocol = ''https'', sampler_path = ''/notes'',
       sampler_method = ''PUT''\<rparr>]"

text \<open>
  Two documents more. In the first the value under the method key \<^verbatim>\<open>post\<close> is \<^verbatim>\<open>null\<close>. In
  the second both operations declare a JSON body schema: the one of \<^verbatim>\<open>post\<close> is a string
  schema whose \<^verbatim>\<open>enum\<close> is a mapping with a \<^verbatim>\<open>length\<close> and no element 0, the one of \<^verbatim>\<open>put\<close>
  is \<^verbatim>\<open>false\<close>.
\<close>

definition example_null_operation :: jsval where
  "example_null_operation =
     Obj [(''openapi'', Str ''3.0.0''),
          (''paths'', Obj [(''/a'', Obj [(''get'', Obj []), (''post'', Null)])])]"

definition json_body :: "jsval \<Rightarrow> jsval" where
  "json_body schema =
     Obj [(''requestBody'',
           Obj [(''content'', Obj [(''application/json'', Obj [(''schema'', schema)])])])]"

definition enum_without_element :: jsval where
  "enum_without_element = Obj [(''type'', Str ''string''), (''enum'', Obj [(''length'', Num 1)])]"

definition example_no_sample :: jsval where
  "example_no_sample =
     Obj [(''openapi'', Str ''3.0.0''),
          (''paths'',
           Obj [(''/notes'',
                 Obj [(''post'', json_body enum_without_element),
                      (''put'', json_body (Bool False))])])]"

definition example_no_sample_samplers :: "sampler list" where
  "example_no_sample_samplers =
     [\<lparr>testname = Str ''POST /notes'', bodyDataProp = None,
       sampler_domain = ''api.example.com'', sampler_port = ''443'',
       sampler_protocol = ''https'', sampler_path = ''/notes'',
       sampler_method = ''POST''\<rparr>,
      \<lparr>testname = Str ''PUT /notes'', bodyDataProp = None,
       sampler_domain = ''api.example.com'', sampler_port = ''443'',
       sampler_protocol = ''https'', sampler_path = ''/notes'',
       sampler_method = ''PUT''\<rparr>]"

section \<open>Properties of the synthesis\<close>

subsection \<open>Auxiliary facts\<close>

lemma show_nat_0: "show_nat 0 = ''0''"
  by (subst show_nat.simps) (simp add: digit_char_def)

lemma get_Arr_length: "get (Arr xs) ''length'' = Some (Num (of_nat (length xs)))"
  by (simp add: get_def)

lemma get_Arr_first: "get (Arr (v # vs)) ''0'' = Some v"
  by (simp add: get_def upt_conv_Cons show_nat_0 del: upt_Suc)

lemma stringSample_enum:
  assumes "get resolvedSchema ''enum'' = Some (Arr (v # vs))"
  shows "stringSample resolvedSchema propertyName st =
           Inr (case byName stringByName propertyName st of Some r \<Rightarrow> r | None \<Rightarrow> (v, st))"
  using assms
  by (simp add: stringSample_def if_truthy_def get_Arr_length get_Arr_first gt_zero_def
           split: option.splits)

lemmas generateSampleJson_induct =
  generateSampleJson.raw_induct [rotated 1, consumes 1, case_names call]

subsection \<open>Enumerations and the name rules\<close>

text \<open>
  C3, as the code has it. For a string schema with no example and a non-empty
  \<^verbatim>\<open>enum\<close> array the name rules are tried first: the first enum value is the sample only
  when no property name is given, the name is empty or no rule applies to it
  (\<open>byName stringByName\<close> is \<open>None\<close>); when a rule applies, its value is the sample and
  the enum is not read.
\<close>

theorem C3_name_rule_before_enum:
  assumes "resolveSchema schema spec = Inr resolvedSchema"
    and "get resolvedSchema ''example'' = None"
    and "first_example (get resolvedSchema ''examples'') = None"
    and "get resolvedSchema ''type'' = Some (Str ''string'')"
    and "get resolvedSchema ''enum'' = Some (Arr (v # vs))"
  shows "generateSampleJson year rnd spec schema propertyName st =
           Some (Inr (case byName stringByName propertyName st of
                        Some r \<Rightarrow> r
                      | None \<Rightarrow> (v, st)))"
  using assms
  by (subst generateSampleJson.simps) (simp add: stringSample_enum)

text \<open>The theorem at a property named \<^verbatim>\<open>colour\<close>, which no rule matches: the first enum value.\<close>

theorem C3_name_rule_before_enum_witness:
  "generateSampleJson 2024 (\<lambda>_. 0) (Obj [])
     (Obj [(''type'', Str ''string''), (''enum'', Arr [Str ''red'', Str ''green''])])
     (Some ''colour'') \<lparr>idCounter = 1, draws = 0\<rparr>
   = Some (Inr (Str ''red'', \<lparr>idCounter = 1, draws = 0\<rparr>))"
  using C3_name_rule_before_enum [of
      "Obj [(''type'', Str ''string''), (''enum'', Arr [Str ''red'', Str ''green''])]"
      "Obj []"
      "Obj [(''type'', Str ''string''), (''enum'', Arr [Str ''red'', Str ''green''])]"
      "Str ''red''" "[Str ''green'']" 2024 "\<lambda>_. 0" "Some ''colour''"
      "\<lparr>idCounter = 1, draws = 0\<rparr>"]
  by (simp add: resolveSchema_def get_def if_truthy_def first_example_def
      byName_def stringByName_def toLowerCase_def toLowerChar_def)

text \<open>
  C3 as stated fails: the property \<^verbatim>\<open>email\<close> of an object schema, a string with the
  enum \<^verbatim>\<open>["work", "home"]\<close>, gets the fixed address and not \<^verbatim>\<open>"work"\<close>.
\<close>

theorem C3_counterexample:
  "generateSampleJson 2024 (\<lambda>_. 0) (Obj [])
     (Obj [(''type'', Str ''object''),
           (''properties'',
            Obj [(''email'',
                  Obj [(''type'', Str ''string''),
                       (''enum'', Arr [Str ''work'', Str ''home''])])])])
     None \<lparr>idCounter = 1, draws = 0\<rparr>
   = Some (Inr (Obj [(''email'', Str ''sample@example.com'')], \<lparr>idCounter = 1, draws = 0\<rparr>))"
  by (simp add: generateSampleJson.simps resolveSchema_def get_def if_truthy_def first_example_def
      stringSample_def byName_def stringByName_def toLowerCase_def toLowerChar_def obj_set_def)

subsection \<open>Integer bounds\<close>

text \<open>
  C6 at the schema \<^verbatim>\<open>{type: integer, minimum: -10, maximum: 0}\<close> under the property name
  \<^verbatim>\<open>offset\<close>, which no name rule matches: the sample is 1, above the declared maximum.
  The branch for \<^verbatim>\<open>minimum\<close> returns before \<^verbatim>\<open>maximum\<close> is read.
\<close>

theorem C6_maximum_not_applied:
  "generateSampleJson 2024 (\<lambda>_. 0) (Obj [])
     (Obj [(''type'', Str ''object''),
           (''properties'',
            Obj [(''offset'',
                  Obj [(''type'', Str ''integer''), (''minimum'', Num (- 10)),
                       (''maximum'', Num 0)])])])
     None \<lparr>idCounter = 1, draws = 0\<rparr>
   = Some (Inr (Obj [(''offset'', Num 1)], \<lparr>idCounter = 1, draws = 0\<rparr>))"
  by (simp add: generateSampleJson.simps resolveSchema_def get_def if_truthy_def first_example_def
      integerSample_def bounded_def Math_max_def byName_def integerByName_def toLowerCase_def
      toLowerChar_def obj_set_def)

subsection \<open>Reference cycles\<close>

lemma for_entries_no_value:
  assumes "(key, m) \<in> set es"
    and "\<And>s y. g m key s = Some y \<Longrightarrow> \<exists>e. y = Inl e"
    and "for_entries g es obj st = Some r"
  shows "\<exists>e. r = Inl e"
  using assms
proof (induction es arbitrary: obj st)
  case Nil
  then show ?case by simp
next
  case (Cons a es)
  obtain k p where a: "a = (k, p)" by (cases a)
  from Cons.prems(3) obtain y where y: "g p k st = Some y"
    and rest: "(case y of Inl e \<Rightarrow> Some (Inl e)
                | Inr (v, st') \<Rightarrow> for_entries g es (obj_set obj k v) st') = Some r"
    by (auto simp: a bind_eq_Some_conv)
  show ?case
  proof (cases y)
    case (Inl e)
    with rest show ?thesis by auto
  next
    case (Inr b)
    obtain v st' where b: "b = (v, st')" by (cases b)
    have neq: "(k, p) \<noteq> (key, m)"
      using Cons.prems(2) [of st y] y Inr by auto
    with Cons.prems(1) have "(key, m) \<in> set es" by (auto simp: a)
    moreover from rest Inr b have "for_entries g es (obj_set obj k v) st' = Some r" by simp
    ultimately show ?thesis using Cons.IH Cons.prems(2) by blast
  qed
qed

lemma cycle_no_value:
  assumes run: "generateSampleJson year rnd spec schema name st = Some res"
    and cycle: "list_all (recurs_into spec0 cycle) cycle"
  shows "spec = spec0 \<and> schema \<in> set cycle \<longrightarrow> (\<exists>e. res = Inl e)"
  using run
proof (induction year rnd spec schema name st res rule: generateSampleJson_induct)
  case (call f year rnd spec schema name st res)
  show ?case
  proof (intro impI)
    assume eq: "spec = spec0 \<and> schema \<in> set cycle"
    with cycle have "recurs_into spec0 cycle schema"
      by (simp add: list_all_iff)
    then obtain A props key m where A: "resolveSchema schema spec0 = Inr A"
      "get A ''example'' = None" "first_example (get A ''examples'') = None"
      "get A ''type'' = Some (Str ''object'')" "if_truthy (get A ''properties'') = Some props"
      and m: "(key, m) \<in> set (entries props)" "m \<in> set cycle"
      by (auto simp: recurs_into_def list_ex_iff split: sum.splits option.splits)
    have inner: "\<exists>e. y = Inl e" if "f year rnd spec0 m (Some key) s = Some y" for s y
      using call.IH [OF that] m(2) by simp
    from call.hyps eq A
    have "Option.bind
            (for_entries (\<lambda>prop k s. f year rnd spec0 prop (Some k) s) (entries props) [] st)
            (\<lambda>r. case r of Inl e \<Rightarrow> Some (Inl e)
                  | Inr (obj, st') \<Rightarrow> Some (Inr (Obj obj, st'))) = Some res"
      by simp
    then obtain r where r: "for_entries (\<lambda>prop k s. f year rnd spec0 prop (Some k) s) (entries props) [] st = Some r"
      and res: "(case r of Inl e \<Rightarrow> Some (Inl e) | Inr (obj, st') \<Rightarrow> Some (Inr (Obj obj, st'))) = Some res"
      by (auto simp: bind_eq_Some_conv)
    from for_entries_no_value [OF m(1) _ r] inner obtain e where "r = Inl e" by blast
    with res show "\<exists>e. res = Inl e" by auto
  qed
qed

text \<open>
  C1, as the code has it. The synthesis keeps no set of visited targets. On a schema of a
  reference cycle it never returns a sample: the property that leads back into the cycle
  is synthesized like any other, so the recursion goes on without end unless an exception
  in some property ends the run; no field is replaced by \<^verbatim>\<open>null\<close>.
\<close>

theorem C1_cycle_no_sample:
  assumes "list_all (recurs_into spec cycle) cycle" and "schema \<in> set cycle"
  shows "generateSampleJson year rnd spec schema name st \<noteq> Some (Inr (v, st'))"
  using cycle_no_value [OF _ assms(1), of year rnd spec schema name st "Inr (v, st')"] assms(2)
  by auto

text \<open>
  The theorem at two schemas that refer to one another: the value that a cut at the
  revisited target would give is not the result.
\<close>

theorem C1_cycle_no_sample_witness:
  "generateSampleJson 2024 (\<lambda>_. 0)
     (Obj [(''definitions'',
            Obj [(''Person'',
                  Obj [(''type'', Str ''object''),
                       (''properties'',
                        Obj [(''label'', Obj [(''type'', Str ''string'')]),
                             (''employer'', Obj [(''$ref'', Str ''#/definitions/Company'')])])]),
                 (''Company'',
                  Obj [(''type'', Str ''object''),
                       (''properties'',
                        Obj [(''owner'', Obj [(''$ref'', Str ''#/definitions/Person'')])])])])])
     (Obj [(''$ref'', Str ''#/definitions/Person'')]) None \<lparr>idCounter = 1, draws = 0\<rparr>
   \<noteq> Some (Inr (Obj [(''label'', Str ''sample''), (''employer'', Obj [(''owner'', Null)])],
                  \<lparr>idCounter = 1, draws = 0\<rparr>))"
  by (rule C1_cycle_no_sample [where cycle =
        "[Obj [(''$ref'', Str ''#/definitions/Person'')],
          Obj [(''$ref'', Str ''#/definitions/Company'')]]"])
     (simp_all add: recurs_into_def resolveSchema_def get_def if_truthy_def first_example_def
        refPath_def or_empty_def)

lemma self_reference_no_result:
  assumes run: "generateSampleJson year rnd spec schema name st = Some res"
    and "resolveSchema m spec0 = Inr A"
    and "get A ''example'' = None"
    and "first_example (get A ''examples'') = None"
    and "get A ''type'' = Some (Str ''object'')"
    and "if_truthy (get A ''properties'') = Some props"
    and "entries props = (key, m) # rest"
  shows "\<not> (spec = spec0 \<and> schema = m)"
  using run
proof (induction year rnd spec schema name st res rule: generateSampleJson_induct)
  case (call f year rnd spec schema name st res)
  show ?case
  proof
    assume eq: "spec = spec0 \<and> schema = m"
    from call.hyps eq assms(2-7)
    obtain y where "f year rnd spec0 m (Some key) st = Some y"
      by (auto simp: bind_eq_Some_conv)
    from call.IH [OF this] show False by simp
  qed
qed

lemma self_reference_diverges:
  assumes "resolveSchema m spec = Inr A"
    and "get A ''example'' = None"
    and "first_example (get A ''examples'') = None"
    and "get A ''type'' = Some (Str ''object'')"
    and "if_truthy (get A ''properties'') = Some props"
    and "entries props = (key, m) # rest"
  shows "generateSampleJson year rnd spec m name st = None"
proof (cases "generateSampleJson year rnd spec m name st")
  case None
  then show ?thesis .
next
  case (Some res)
  from self_reference_no_result [OF Some assms] show ?thesis by simp
qed

text \<open>
  C1 as stated fails: for the schema \<^verbatim>\<open>Node\<close> whose property \<^verbatim>\<open>next\<close> refers to \<^verbatim>\<open>Node\<close>
  the synthesis does not return.
\<close>

theorem C1_counterexample:
  "generateSampleJson 2024 (\<lambda>_. 0)
     (Obj [(''components'',
            Obj [(''schemas'',
                  Obj [(''Node'',
                        Obj [(''type'', Str ''object''),
                             (''properties'',
                              Obj [(''next'', Obj [(''$ref'', Str ''#/components/schemas/Node'')])])])])])])
     (Obj [(''$ref'', Str ''#/components/schemas/Node'')]) None \<lparr>idCounter = 1, draws = 0\<rparr>
   = None"
  by (rule self_reference_diverges [where key = "''next''" and rest = "[]" and
        A = "Obj [(''type'', Str ''object''),
                  (''properties'',
                   Obj [(''next'', Obj [(''$ref'', Str ''#/components/schemas/Node'')])])]"
        and props = "Obj [(''next'', Obj [(''$ref'', Str ''#/components/schemas/Node'')])]"])
     (simp_all add: resolveSchema_def get_def if_truthy_def first_example_def refPath_def
        or_empty_def)

subsection \<open>References without a target\<close>

lemma foldl_opt_get_None: "foldl opt_get None segs = None"
  by (induction segs) simp_all

lemma resolveSchema_missing:
  assumes "get schema ''$ref'' = Some (Str r)" and "r \<noteq> []"
    and "refPath r = pre @ seg # post"
    and "opt_get (foldl opt_get (Some spec) pre) seg = None"
  shows "resolveSchema schema spec = Inr (Obj [])"
proof -
  have "schema \<noteq> Null" and "schema \<noteq> Undefined" using assms(1) by (auto simp: get_def)
  moreover have "foldl opt_get (Some spec) (refPath r) = None"
    by (simp add: assms(3,4) foldl_opt_get_None)
  ultimately show ?thesis
    using assms(1,2) by (cases schema) (simp_all add: resolveSchema_def if_truthy_def or_empty_def)
qed

lemma get_empty: "get (Obj []) k = None"
  by (simp add: get_def)

text \<open>
  C2, as the code has it. When some segment of the pointer is missing on the walk from the
  document root, \<^verbatim>\<open>resolveSchema\<close> returns the empty schema and raises nothing, and the
  synthesis goes on with it: the sample is \<^verbatim>\<open>null\<close>.
\<close>

theorem C2_missing_target_is_empty_schema:
  assumes "get schema ''$ref'' = Some (Str r)" and "r \<noteq> []"
    and "refPath r = pre @ seg # post"
    and "opt_get (foldl opt_get (Some spec) pre) seg = None"
  shows "resolveSchema schema spec = Inr (Obj []) \<and>
         generateSampleJson year rnd spec schema propertyName st = Some (Inr (Null, st))"
  using resolveSchema_missing [OF assms]
  by (subst generateSampleJson.simps) (simp add: get_empty first_example_def)

text \<open>The theorem at the pointer \<^verbatim>\<open>#/definitions/Missing\<close> into a document with no such schema.\<close>

theorem C2_missing_target_is_empty_schema_witness:
  "resolveSchema (Obj [(''$ref'', Str ''#/definitions/Missing'')]) (Obj [(''definitions'', Obj [])]) = Inr (Obj []) \<and>
   generateSampleJson 2024 (\<lambda>_. 0) (Obj [(''definitions'', Obj [])]) (Obj [(''$ref'', Str ''#/definitions/Missing'')])
     None \<lparr>idCounter = 1, draws = 0\<rparr> = Some (Inr (Null, \<lparr>idCounter = 1, draws = 0\<rparr>))"
  by (rule C2_missing_target_is_empty_schema [where r = "''#/definitions/Missing''"
        and pre = "[''definitions'']" and seg = "''Missing''" and post = "[]"])
     (simp_all add: get_def refPath_def)


text \<open>
  C2 as stated fails: the property \<^verbatim>\<open>owner\<close> refers to a schema that the document does
  not have, and the synthesis returns a sample with \<^verbatim>\<open>null\<close> for it.
\<close>

theorem C2_counterexample:
  "generateSampleJson 2024 (\<lambda>_. 0)
     (Obj [(''components'', Obj [(''schemas'', Obj [(''Pet'', Obj [(''type'', Str ''string'')])])])])
     (Obj [(''type'', Str ''object''),
           (''properties'', Obj [(''owner'', Obj [(''$ref'', Str ''#/components/schemas/Owner'')])])])
     None \<lparr>idCounter = 1, draws = 0\<rparr>
   = Some (Inr (Obj [(''owner'', Null)], \<lparr>idCounter = 1, draws = 0\<rparr>))"
  by (simp add: generateSampleJson.simps resolveSchema_def get_def if_truthy_def first_example_def
      refPath_def or_empty_def obj_set_def)

subsection \<open>Path placeholders\<close>

lemma brace_not_word: "\<not> is_word_char CHR ''}''"
  by (simp add: is_word_char_def)

lemma word_no_brace: "list_all is_word_char name \<Longrightarrow> CHR ''}'' \<notin> set name"
  using brace_not_word by (auto simp: list_all_iff)

lemma takeWhile_name:
  "CHR ''}'' \<notin> set name \<Longrightarrow> takeWhile (\<lambda>x. x \<noteq> CHR ''}'') (name @ CHR ''}'' # rest) = name"
  by (induction name) auto

lemma dropWhile_name:
  "CHR ''}'' \<notin> set name \<Longrightarrow>
     dropWhile (\<lambda>x. x \<noteq> CHR ''}'') (name @ CHR ''}'' # rest) = CHR ''}'' # rest"
  by (induction name) auto

lemma pathWithoutParams_placeholder:
  assumes "name \<noteq> []" and "CHR ''}'' \<notin> set name"
  shows "pathWithoutParams (''{'' @ name @ ''}'') = ''${'' @ name @ ''}''"
  using assms
  by (simp add: takeWhile_name dropWhile_name)

lemma pathWithoutParams_rewritten:
  assumes "name \<noteq> []" and "CHR ''}'' \<notin> set name"
  shows "pathWithoutParams (''${'' @ name @ ''}'') = ''$${'' @ name @ ''}''"
  using assms
  by (simp add: takeWhile_name dropWhile_name)

text \<open>
  C5, as the code has it. For every identifier the rewrite turns \<^verbatim>\<open>{name}\<close> into
  \<^verbatim>\<open>${name}\<close>, and it is a bijection between the two forms. It is not idempotent: in
  \<^verbatim>\<open>${name}\<close> the pattern matches the braces again, and the result is \<^verbatim>\<open>$${name}\<close>.
\<close>

theorem C5_placeholder_rewrite:
  "(name \<in> identifiers \<longrightarrow>
      pathWithoutParams (brace_form name) = dollar_form name \<and>
      pathWithoutParams (dollar_form name) = CHR ''$'' # dollar_form name) \<and>
   bij_betw pathWithoutParams (brace_form ` identifiers) (dollar_form ` identifiers)"
proof -
  have rew: "pathWithoutParams (brace_form n) = dollar_form n" if "n \<in> identifiers" for n
    using that pathWithoutParams_placeholder [of n] word_no_brace [of n]
    by (simp add: brace_form_def dollar_form_def identifiers_def)
  have again: "pathWithoutParams (dollar_form n) = CHR ''$'' # dollar_form n"
    if "n \<in> identifiers" for n
    using that pathWithoutParams_rewritten [of n] word_no_brace [of n]
    by (simp add: dollar_form_def identifiers_def)
  have "inj_on dollar_form identifiers"
    by (rule inj_onI) (simp add: dollar_form_def)
  then have "inj_on (\<lambda>n. pathWithoutParams (brace_form n)) identifiers"
    by (simp add: rew cong: inj_on_cong)
  moreover have "inj_on brace_form identifiers"
    by (rule inj_onI) (simp add: brace_form_def)
  ultimately have inj: "inj_on pathWithoutParams (brace_form ` identifiers)"
    using comp_inj_on_iff [of brace_form identifiers pathWithoutParams] by (simp add: comp_def)
  have img: "pathWithoutParams ` brace_form ` identifiers = dollar_form ` identifiers"
    unfolding image_image by (rule image_cong) (simp_all add: rew)
  show ?thesis
    unfolding bij_betw_def using rew again inj img by blast
qed

text \<open>The theorem at the identifier \<^verbatim>\<open>petId\<close>.\<close>

theorem C5_placeholder_rewrite_witness:
  "pathWithoutParams ''{petId}'' = ''${petId}'' \<and> pathWithoutParams ''${petId}'' = ''$${petId}''"
proof -
  have "''petId'' \<in> identifiers"
    by (simp add: identifiers_def is_word_char_def)
  with C5_placeholder_rewrite [of "''petId''"]
  have "pathWithoutParams (brace_form ''petId'') = dollar_form ''petId'' \<and>
        pathWithoutParams (dollar_form ''petId'') = CHR ''$'' # dollar_form ''petId''"
    by blast
  then show ?thesis
    by (simp only: brace_form_def dollar_form_def append.simps)
qed


text \<open>C5 as stated fails: a path that is already rewritten does not stay as it is.\<close>

theorem C5_counterexample:
  "pathWithoutParams ''/pets/${petId}'' \<noteq> ''/pets/${petId}''"
  by simp

subsection \<open>Samplers\<close>

lemma bind_InrD:
  assumes "Option.bind m (\<lambda>r. case r of Inl e \<Rightarrow> Some (Inl e) | Inr x \<Rightarrow> k x) = Some (Inr z)"
  shows "\<exists>x. m = Some (Inr x) \<and> k x = Some (Inr z)"
proof (cases m)
  case None
  with assms show ?thesis by simp
next
  case (Some r)
  with assms show ?thesis by (cases r) simp_all
qed

lemma mk_sampler_InrD:
  assumes "mk_sampler stringify year rnd spec parts op d = Some (Inr (s, d'))"
  shows "\<exists>body.
    (if needsBody op then generateRequestBody stringify year rnd spec (requestBody op) d
      else Some (Inr (Some [], d))) = Some (Inr (body, d'))
    \<and> s = \<lparr>testname = samplerName op,
              bodyDataProp = body_block body,
              sampler_domain = parts_domain parts,
              sampler_port = parts_port parts,
              sampler_protocol = parts_protocol parts,
              sampler_path = parts_path parts @ pathWithoutParams (op_path op),
              sampler_method = op_method op\<rparr>"
proof -
  from bind_InrD [OF assms [unfolded mk_sampler_def]]
  show ?thesis
  proof (elim exE conjE)
    fix x :: "string option \<times> nat"
    obtain body d0 where x: "x = (body, d0)" by (cases x)
    assume "(if needsBody op then generateRequestBody stringify year rnd spec (requestBody op) d
              else Some (Inr (Some [], d))) = Some (Inr x)"
      and "(case x of (body, d') \<Rightarrow>
               Some (Inr (\<lparr>testname = samplerName op,
                           bodyDataProp = body_block body,
                           sampler_domain = parts_domain parts,
                           sampler_port = parts_port parts,
                           sampler_protocol = parts_protocol parts,
                           sampler_path = parts_path parts @ pathWithoutParams (op_path op),
                           sampler_method = op_method op\<rparr>, d'))) = Some (Inr (s, d'))"
    then show ?thesis
      unfolding x prod.case by (intro exI [of _ body]) simp
  qed
qed

lemma map_samplers_ConsD:
  assumes "map_samplers stringify year rnd spec parts (op # ops) d = Some (Inr ss)"
  shows "\<exists>s d' ss'.
    mk_sampler stringify year rnd spec parts op d = Some (Inr (s, d'))
    \<and> map_samplers stringify year rnd spec parts ops d' = Some (Inr ss')
    \<and> ss = s # ss'"
proof -
  from bind_InrD [OF assms [unfolded map_samplers.simps]]
  show ?thesis
  proof (elim exE conjE)
    fix x :: "sampler \<times> nat"
    obtain s d' where x: "x = (s, d')" by (cases x)
    assume mk: "mk_sampler stringify year rnd spec parts op d = Some (Inr x)"
      and k: "(case x of (s, d') \<Rightarrow>
               Option.bind (map_samplers stringify year rnd spec parts ops d')
                 (\<lambda>r'. case r' of Inl e \<Rightarrow> Some (Inl e) | Inr ss \<Rightarrow> Some (Inr (s # ss))))
            = Some (Inr ss)"
    from k have "Option.bind (map_samplers stringify year rnd spec parts ops d')
                 (\<lambda>r'. case r' of Inl e \<Rightarrow> Some (Inl e) | Inr ss \<Rightarrow> Some (Inr (s # ss)))
               = Some (Inr ss)"
      unfolding x prod.case .
    from bind_InrD [OF this] obtain ss' where
      "map_samplers stringify year rnd spec parts ops d' = Some (Inr ss')" and "ss = s # ss'"
      by auto
    with mk x show ?thesis by blast
  qed
qed

lemma map_samplers_port:
  "map_samplers stringify year rnd spec parts ops d = Some (Inr ss) \<Longrightarrow> s \<in> set ss \<Longrightarrow>
     sampler_port s = parts_port parts"
proof (induction ops arbitrary: d ss)
  case Nil
  then show ?case by simp
next
  case (Cons op ops)
  from map_samplers_ConsD [OF Cons.prems(1)] obtain s0 d' ss' where
    s0: "mk_sampler stringify year rnd spec parts op d = Some (Inr (s0, d'))"
    and rest: "map_samplers stringify year rnd spec parts ops d' = Some (Inr ss')"
    and ss: "ss = s0 # ss'"
    by blast
  show ?case
  proof (cases "s = s0")
    case True
    with mk_sampler_InrD [OF s0] show ?thesis by auto
  next
    case False
    with Cons.prems(2) ss have "s \<in> set ss'" by simp
    with Cons.IH [OF rest] show ?thesis .
  qed
qed

lemma mk_urlParts_port:
  "parts_port (mk_urlParts parseURL b) =
     (case parseURL b of
        None \<Rightarrow> []
      | Some u \<Rightarrow> if port u \<noteq> [] then port u else if protocol u = ''https:'' then ''443'' else ''80'')"
  by (simp add: mk_urlParts_def split: option.splits)

text \<open>
  C10. In every conversion that returns, each sampler's port is the one of \<open>mk_urlParts\<close>:
  when the base URL parses and has no port, \<^verbatim>\<open>443\<close> for the protocol \<^verbatim>\<open>https:\<close> and \<^verbatim>\<open>80\<close>
  for \<^verbatim>\<open>http:\<close>; when it does not parse, the empty string.
\<close>

theorem C10_default_port:
  assumes "httpSamplers parseURL stringify year rnd spec b d = Some (Inr ss)" and "s \<in> set ss"
  shows "(\<forall>u. parseURL b = Some u \<and> port u = [] \<and> protocol u = ''https:'' \<longrightarrow> sampler_port s = ''443'') \<and>
         (\<forall>u. parseURL b = Some u \<and> port u = [] \<and> protocol u = ''http:'' \<longrightarrow> sampler_port s = ''80'') \<and>
         (parseURL b = None \<longrightarrow> sampler_port s = [])"
proof -
  from assms obtain ops where
    "map_samplers stringify year rnd spec (mk_urlParts parseURL b) ops d = Some (Inr ss)"
    by (auto simp: httpSamplers_def split: sum.splits)
  from map_samplers_port [OF this assms(2)]
  have "sampler_port s = parts_port (mk_urlParts parseURL b)" .
  then show ?thesis
    by (simp add: mk_urlParts_port)
qed



lemma example_runs:
  "httpSamplers example_parseURL (\<lambda>v. ''null'') 2024 (\<lambda>_. 0) example_spec
     ''https://api.example.com'' 0
   = Some (Inr [example_sampler ''api.example.com'' ''443'' ''https'' ''/pets''])"
  "httpSamplers example_parseURL (\<lambda>v. ''null'') 2024 (\<lambda>_. 0) example_spec
     ''http://localhost/v1'' 0
   = Some (Inr [example_sampler ''localhost'' ''80'' ''http'' ''/v1/pets''])"
  "httpSamplers example_parseURL (\<lambda>v. ''null'') 2024 (\<lambda>_. 0) example_spec
     ''api.example.com/v1'' 0
   = Some (Inr [example_sampler ''api.example.com'' [] ''https'' ''/pets''])"
  by (simp_all add: httpSamplers_def operations_def get_def or_empty_def if_truthy_def
        httpMethods_def mk_operation_def toUpperCase_def toUpperChar_def mk_sampler_def
        needsBody_def mk_urlParts_def samplerName_def example_parseURL_def example_spec_def
        example_sampler_def strip_scheme_def body_block_def)

text \<open>The theorem at the three base URLs of the example.\<close>

theorem C10_default_port_witness:
  "sampler_port (example_sampler ''api.example.com'' ''443'' ''https'' ''/pets'') = ''443'' \<and>
   sampler_port (example_sampler ''localhost'' ''80'' ''http'' ''/v1/pets'') = ''80'' \<and>
   sampler_port (example_sampler ''api.example.com'' [] ''https'' ''/pets'') = []"
  using C10_default_port [OF example_runs(1), of "example_sampler ''api.example.com'' ''443'' ''https'' ''/pets''"]
    C10_default_port [OF example_runs(2), of "example_sampler ''localhost'' ''80'' ''http'' ''/v1/pets''"]
    C10_default_port [OF example_runs(3), of "example_sampler ''api.example.com'' [] ''https'' ''/pets''"]
  by (simp add: example_parseURL_def)

subsection \<open>The base URL of a loaded file\<close>

lemma opt_get_Some: "opt_get (Some v) k = get v k"
  by (cases v) (simp_all add: get_def)

lemma handleFileUpload_neither:
  assumes "if_truthy (opt_get (opt_get (get parsedSpec ''servers'') ''0'') ''url'') = None"
    and "if_truthy (get parsedSpec ''host'') = None"
  shows "handleFileUpload (Some parsedSpec) prev = Inr prev"
  using assms by (simp add: handleFileUpload_def opt_get_Some)

lemma handleFileUpload_unparsed: "handleFileUpload None prev = Inr prev"
  by (simp add: handleFileUpload_def)

lemma handleFileUpload_servers:
  assumes "if_truthy (opt_get (opt_get (get parsedSpec ''servers'') ''0'') ''url'') = Some (Str u)"
  shows "handleFileUpload (Some parsedSpec) prev = Inr (prev\<lparr>baseUrl := u\<rparr>)"
  using assms by (simp add: handleFileUpload_def opt_get_Some)

lemma handleFileUpload_host:
  assumes "if_truthy (opt_get (opt_get (get parsedSpec ''servers'') ''0'') ''url'') = None"
    and "if_truthy (get parsedSpec ''host'') = Some host"
    and "host_url parsedSpec host = Inr s"
  shows "handleFileUpload (Some parsedSpec) prev = Inr (prev\<lparr>baseUrl := s\<rparr>)"
  using assms by (simp add: handleFileUpload_def opt_get_Some)

text \<open>
  C4, as the code has it. The derived base URL replaces the configured one, whatever that
  was: the \<^verbatim>\<open>url\<close> of the first server when it is a non-empty string, and otherwise, for a
  truthy \<^verbatim>\<open>host\<close>, the URL built from \<^verbatim>\<open>schemes[0]\<close> (or \<^verbatim>\<open>https\<close>), the host and
  \<^verbatim>\<open>basePath\<close>. No other field of the configuration changes.
\<close>

theorem C4_derived_base_url_replaces:
  "(if_truthy (opt_get (opt_get (get parsedSpec ''servers'') ''0'') ''url'') = Some (Str u) \<longrightarrow>
      handleFileUpload (Some parsedSpec) prev = Inr (prev\<lparr>baseUrl := u\<rparr>)) \<and>
   (if_truthy (opt_get (opt_get (get parsedSpec ''servers'') ''0'') ''url'') = None \<and>
    if_truthy (get parsedSpec ''host'') = Some host \<and> host_url parsedSpec host = Inr s \<longrightarrow>
      handleFileUpload (Some parsedSpec) prev = Inr (prev\<lparr>baseUrl := s\<rparr>)) \<and>
   (if_truthy (opt_get (opt_get (get parsedSpec ''servers'') ''0'') ''url'') = None \<and>
    if_truthy (get parsedSpec ''host'') = None \<longrightarrow>
      handleFileUpload (Some parsedSpec) prev = Inr prev) \<and>
   handleFileUpload None prev = Inr prev"
  using handleFileUpload_servers handleFileUpload_host handleFileUpload_neither
    handleFileUpload_unparsed by blast

text \<open>The theorem at an OpenAPI 3 document and at a Swagger 2 document, over a configured base URL.\<close>

theorem C4_derived_base_url_replaces_witness:
  "handleFileUpload
     (Some (Obj [(''openapi'', Str ''3.0.0''),
                 (''servers'', Arr [Obj [(''url'', Str ''https://petstore.example.com/v2'')]]),
                 (''paths'', Obj [])]))
     \<lparr>threadCount = 10, rampUpTime = 10, loopCount = 1, baseUrl = ''http://staging.internal:8080'',
      testPlanName = ''API Performance Test''\<rparr>
   = Inr \<lparr>threadCount = 10, rampUpTime = 10, loopCount = 1,
          baseUrl = ''https://petstore.example.com/v2'', testPlanName = ''API Performance Test''\<rparr>
   \<and>
   handleFileUpload
     (Some (Obj [(''swagger'', Str ''2.0''), (''host'', Str ''petstore.example.com''),
                 (''basePath'', Str ''/v2''), (''schemes'', Arr [Str ''http'']),
                 (''paths'', Obj [])]))
     \<lparr>threadCount = 10, rampUpTime = 10, loopCount = 1, baseUrl = ''http://staging.internal:8080'',
      testPlanName = ''API Performance Test''\<rparr>
   = Inr \<lparr>threadCount = 10, rampUpTime = 10, loopCount = 1,
          baseUrl = ''http://petstore.example.com/v2'', testPlanName = ''API Performance Test''\<rparr>"
  using
    C4_derived_base_url_replaces [of
      "Obj [(''openapi'', Str ''3.0.0''),
            (''servers'', Arr [Obj [(''url'', Str ''https://petstore.example.com/v2'')]]),
            (''paths'', Obj [])]"
      "''https://petstore.example.com/v2''"
      "\<lparr>threadCount = 10, rampUpTime = 10, loopCount = 1, baseUrl = ''http://staging.internal:8080'',
        testPlanName = ''API Performance Test''\<rparr>", THEN conjunct1]
    C4_derived_base_url_replaces [of
      "Obj [(''swagger'', Str ''2.0''), (''host'', Str ''petstore.example.com''),
            (''basePath'', Str ''/v2''), (''schemes'', Arr [Str ''http'']),
            (''paths'', Obj [])]"
      _
      "\<lparr>threadCount = 10, rampUpTime = 10, loopCount = 1, baseUrl = ''http://staging.internal:8080'',
        testPlanName = ''API Performance Test''\<rparr>"
      "Str ''petstore.example.com''" "''http://petstore.example.com/v2''",
      THEN conjunct2, THEN conjunct1]
  by (simp add: get_def if_truthy_def host_url_def upt_conv_Cons show_nat_0 del: upt_Suc)

text \<open>
  C4 as stated fails: the configured base URL \<^verbatim>\<open>http://localhost:8080\<close> is gone after a
  document with a \<^verbatim>\<open>servers\<close> entry is loaded.
\<close>

theorem C4_counterexample:
  "handleFileUpload
     (Some (Obj [(''openapi'', Str ''3.0.0''),
                 (''servers'', Arr [Obj [(''url'', Str ''https://api.example.com'')]]),
                 (''paths'', Obj [])]))
     \<lparr>threadCount = 10, rampUpTime = 10, loopCount = 1, baseUrl = ''http://localhost:8080'',
      testPlanName = ''API Performance Test''\<rparr>
   = Inr \<lparr>threadCount = 10, rampUpTime = 10, loopCount = 1, baseUrl = ''https://api.example.com'',
          testPlanName = ''API Performance Test''\<rparr>"
  by (simp add: handleFileUpload_def get_def if_truthy_def upt_conv_Cons show_nat_0 del: upt_Suc)

subsection \<open>One sampler for each method key\<close>

lemma itemOperations_total:
  "itemOperations path kvs =
     (if list_all (\<lambda>(key, operation). key \<in> set httpMethods \<longrightarrow> \<not> nullish operation) kvs
      then Inr (map (\<lambda>(key, operation). mk_operation path key operation)
                  (filter (\<lambda>(key, operation). key \<in> set httpMethods) kvs))
      else Inl TypeError)"
proof (induction kvs)
  case Nil
  show ?case by simp
next
  case (Cons a kvs)
  obtain k operation where a: "a = (k, operation)" by (cases a)
  show ?case
  proof (cases "k \<in> set httpMethods")
    case True
    with Cons a show ?thesis by (cases operation) (simp_all add: nullish_def)
  next
    case False
    with Cons a show ?thesis by simp
  qed
qed

lemma pathOperations_total:
  "pathOperations es =
     (if list_all (\<lambda>(path, pathItem). well_formed_item pathItem) es
      then Inr (concat (map (\<lambda>(path, pathItem).
                  map (\<lambda>(key, operation). mk_operation path key operation)
                    (filter (\<lambda>(key, operation). key \<in> set httpMethods) (entries pathItem))) es))
      else Inl TypeError)"
proof (induction es)
  case Nil
  show ?case by simp
next
  case (Cons a es)
  obtain path pathItem where a: "a = (path, pathItem)" by (cases a)
  show ?case
  proof (cases "nullish pathItem")
    case True
    then show ?thesis by (auto simp: a nullish_def well_formed_item_def)
  next
    case False
    then have "pathOperations ((path, pathItem) # es) =
        (case itemOperations path (entries pathItem) of
             Inl e \<Rightarrow> Inl e
           | Inr ops \<Rightarrow>
               (case pathOperations es of
                  Inl e \<Rightarrow> Inl e
                | Inr ops' \<Rightarrow> Inr (ops @ ops')))"
      by (cases pathItem) (simp_all add: nullish_def)
    with False Cons show ?thesis
      by (simp add: a itemOperations_total well_formed_item_def)
  qed
qed

lemma operations_total:
  "operations spec =
     (if well_formed_paths spec
      then Inr (concat (map (\<lambda>(path, pathItem).
                  map (\<lambda>(key, operation). mk_operation path key operation)
                    (filter (\<lambda>(key, operation). key \<in> set httpMethods) (entries pathItem)))
                (entries (or_empty (get spec ''paths'')))))
      else Inl TypeError)"
  by (simp add: operations_def well_formed_paths_def pathOperations_total)

lemma operations_keys:
  assumes "operations spec = Inr ops"
  shows "map (\<lambda>op. (op_path op, op_method op)) ops =
           map (\<lambda>(path, key). (path, toUpperCase key)) (method_keys spec)"
proof -
  from assms have "ops = concat (map (\<lambda>(path, pathItem).
                  map (\<lambda>(key, operation). mk_operation path key operation)
                    (filter (\<lambda>(key, operation). key \<in> set httpMethods) (entries pathItem)))
                (entries (or_empty (get spec ''paths''))))"
    by (simp add: operations_total split: if_splits)
  then show ?thesis
    by (simp add: method_keys_def map_concat comp_def case_prod_unfold mk_operation_def)
qed

lemma itemOperations_filter:
  "itemOperations path (filter (\<lambda>(key, operation). key \<in> set httpMethods) kvs) =
     itemOperations path kvs"
proof (induction kvs)
  case Nil
  show ?case by simp
next
  case (Cons a kvs)
  obtain k operation where a: "a = (k, operation)" by (cases a)
  with Cons show ?case by (cases operation) simp_all
qed

lemma map_samplers_ops:
  "map_samplers stringify year rnd spec parts ops d = Some (Inr ss) \<Longrightarrow>
     map (\<lambda>s. (sampler_path s, sampler_method s)) ss =
     map (\<lambda>op. (parts_path parts @ pathWithoutParams (op_path op), op_method op)) ops"
proof (induction ops arbitrary: d ss)
  case Nil
  then show ?case by simp
next
  case (Cons op ops)
  from map_samplers_ConsD [OF Cons.prems] obtain s0 d' ss' where
    s0: "mk_sampler stringify year rnd spec parts op d = Some (Inr (s0, d'))"
    and rest: "map_samplers stringify year rnd spec parts ops d' = Some (Inr ss')"
    and ss: "ss = s0 # ss'"
    by blast
  from mk_sampler_InrD [OF s0] have "sampler_path s0 = parts_path parts @ pathWithoutParams (op_path op)"
    and "sampler_method s0 = op_method op" by auto
  with Cons.IH [OF rest] ss show ?case by simp
qed

lemma httpSamplers_InrD:
  assumes "httpSamplers parseURL stringify year rnd spec b d = Some (Inr ss)"
  shows "\<exists>ops. operations spec = Inr ops \<and>
           map_samplers stringify year rnd spec (mk_urlParts parseURL b) ops d = Some (Inr ss)"
  using assms by (cases "operations spec") (simp_all add: httpSamplers_def)

lemma falsy_get: "\<not> truthy c \<Longrightarrow> get c ''application/json'' = None"
  by (cases c) (simp_all add: get_def)

lemma declared_schema_checks:
  "(case if_truthy (opt_get body ''content'') of
      None \<Rightarrow> None
    | Some content \<Rightarrow> if_truthy (opt_get (get content ''application/json'') ''schema''))
   = if_truthy (declared_schema body)"
proof (cases "opt_get body ''content''")
  case None
  then show ?thesis by (simp add: declared_schema_def if_truthy_def)
next
  case (Some c)
  then show ?thesis
    by (cases "truthy c")
       (simp_all add: declared_schema_def if_truthy_def opt_get_Some falsy_get)
qed

lemma generateRequestBody_schema:
  "generateRequestBody stringify year rnd spec body d =
     (case if_truthy (declared_schema body) of
        None \<Rightarrow> Some (Inr (Some [], d))
      | Some schema \<Rightarrow>
          Option.bind
            (generateSampleJson year rnd spec schema None \<lparr>idCounter = 1, draws = d\<rparr>)
            (\<lambda>r. case r of
                    Inl e \<Rightarrow> Some (Inl e)
                  | Inr (sampleData, st) \<Rightarrow>
                      Some (Inr (JSON_stringify stringify sampleData, draws st))))"
proof (cases "if_truthy (opt_get body ''content'')")
  case None
  with declared_schema_checks [of body] show ?thesis
    by (simp add: generateRequestBody_def)
next
  case (Some content)
  with declared_schema_checks [of body]
  have "if_truthy (opt_get (get content ''application/json'') ''schema'')
          = if_truthy (declared_schema body)" by simp
  with Some show ?thesis by (simp add: generateRequestBody_def)
qed

lemma mk_sampler_returns:
  assumes "body_synthesizes year rnd spec op"
  shows "\<exists>s d'. mk_sampler stringify year rnd spec parts op d = Some (Inr (s, d'))"
proof (cases "if needsBody op then if_truthy (declared_schema (requestBody op)) else None")
  case None
  then have "(if needsBody op then generateRequestBody stringify year rnd spec (requestBody op) d
               else Some (Inr (Some [], d))) = Some (Inr (Some [], d))"
    by (simp add: generateRequestBody_schema split: if_splits)
  then show ?thesis by (simp add: mk_sampler_def)
next
  case (Some schema)
  with assms have "\<exists>v st. generateSampleJson year rnd spec schema None \<lparr>idCounter = 1, draws = d\<rparr>
               = Some (Inr (v, st))"
    by (simp add: body_synthesizes_def)
  then show ?thesis
  proof (elim exE)
    fix v st
    assume "generateSampleJson year rnd spec schema None \<lparr>idCounter = 1, draws = d\<rparr>
               = Some (Inr (v, st))"
    with Some have "(if needsBody op then generateRequestBody stringify year rnd spec (requestBody op) d
               else Some (Inr (Some [], d))) = Some (Inr (JSON_stringify stringify v, draws st))"
      by (simp add: generateRequestBody_schema split: if_splits)
    then show ?thesis by (simp add: mk_sampler_def)
  qed
qed

lemma map_samplers_returns:
  assumes "list_all (body_synthesizes year rnd spec) ops"
  shows "\<exists>ss. map_samplers stringify year rnd spec parts ops d = Some (Inr ss)"
  using assms
proof (induction ops arbitrary: d)
  case Nil
  show ?case by simp
next
  case (Cons op ops)
  from Cons.prems have "body_synthesizes year rnd spec op" by simp
  from mk_sampler_returns [OF this, of stringify parts d]
  have "\<exists>s d'. mk_sampler stringify year rnd spec parts op d = Some (Inr (s, d'))" .
  then show ?case
  proof (elim exE)
    fix s d'
    assume mk: "mk_sampler stringify year rnd spec parts op d = Some (Inr (s, d'))"
    from Cons.prems have "list_all (body_synthesizes year rnd spec) ops" by simp
    from Cons.IH [OF this, of d']
    have "\<exists>ss. map_samplers stringify year rnd spec parts ops d' = Some (Inr ss)" .
    then show ?thesis
    proof (elim exE)
      fix ss
      assume "map_samplers stringify year rnd spec parts ops d' = Some (Inr ss)"
      with mk show ?thesis by simp
    qed
  qed
qed


lemma mk_sampler_schemaD:
  assumes "mk_sampler stringify year rnd spec parts op d = Some (Inr (s, d'))"
    and "needsBody op"
    and "if_truthy (declared_schema (requestBody op)) = Some schema"
  shows "\<exists>v st. generateSampleJson year rnd spec schema None \<lparr>idCounter = 1, draws = d\<rparr>
                    = Some (Inr (v, st)) \<and>
                 d' = draws st \<and>
                 bodyDataProp s = body_block (JSON_stringify stringify v)"
proof -
  from mk_sampler_InrD [OF assms(1)] have "\<exists>body.
      (if needsBody op then generateRequestBody stringify year rnd spec (requestBody op) d
       else Some (Inr (Some [], d))) = Some (Inr (body, d'))
      \<and> bodyDataProp s = body_block body"
    by auto
  then obtain body where
    body: "(if needsBody op then generateRequestBody stringify year rnd spec (requestBody op) d
            else Some (Inr (Some [], d))) = Some (Inr (body, d'))"
    and s: "bodyDataProp s = body_block body"
    by (elim exE conjE)
  from body assms(2,3) have "Option.bind
        (generateSampleJson year rnd spec schema None \<lparr>idCounter = 1, draws = d\<rparr>)
        (\<lambda>r. case r of
                Inl e \<Rightarrow> Some (Inl e)
              | Inr (sampleData, st) \<Rightarrow>
                  Some (Inr (JSON_stringify stringify sampleData, draws st)))
      = Some (Inr (body, d'))"
    by (simp add: generateRequestBody_schema)
  from bind_InrD [OF this]
  have "\<exists>v st. generateSampleJson year rnd spec schema None \<lparr>idCounter = 1, draws = d\<rparr>
                  = Some (Inr (v, st)) \<and> d' = draws st \<and> body = JSON_stringify stringify v"
    by (auto split: prod.splits)
  with s show ?thesis by auto
qed

lemma map_samplers_sampled:
  "map_samplers stringify year rnd spec parts ops d = Some (Inr ss) \<Longrightarrow>
     list_all (\<lambda>op. needsBody op \<and> if_truthy (declared_schema (requestBody op)) \<noteq> None \<longrightarrow>
                  (\<exists>v. body_sample year rnd spec op v)) ops"
proof (induction ops arbitrary: d ss)
  case Nil
  then show ?case by simp
next
  case (Cons op ops)
  from map_samplers_ConsD [OF Cons.prems] obtain s0 d' ss' where
    s0: "mk_sampler stringify year rnd spec parts op d = Some (Inr (s0, d'))"
    and rest: "map_samplers stringify year rnd spec parts ops d' = Some (Inr ss')"
    by blast
  have "\<exists>v. body_sample year rnd spec op v"
    if "needsBody op" and "if_truthy (declared_schema (requestBody op)) \<noteq> None"
  proof -
    from that(2) obtain schema where
      schema: "if_truthy (declared_schema (requestBody op)) = Some schema" by auto
    from mk_sampler_schemaD [OF s0 that(1) schema] schema show ?thesis
      unfolding body_sample_def by blast
  qed
  with Cons.IH [OF rest] show ?case by simp
qed

text \<open>
  C7, as the code has it. The extraction of the operations fails with a TypeError, and
  nothing is emitted, exactly when a path item or the value under one of the seven method keys is
  \<^verbatim>\<open>null\<close> (or \<^verbatim>\<open>undefined\<close>); the values under other keys are never read, and removing
  those keys changes nothing. When the extraction succeeds there is one operation for
  each method key of the document, in traversal order, with the key in upper case as
  method. When moreover the body of every operation can be synthesized, the conversion
  returns. In every conversion that returns the samplers are, in order, those of the
  method keys: one for each, with the key in upper case as method and the rewritten path;
  and a sample was synthesized for every JSON body schema of a POST, PUT or PATCH, so that
  a document where the synthesis of a body fails or does not end gets no sampler. The seven
  keys in upper case are the seven method names.
\<close>

theorem C7_one_sampler_per_method_key:
  "(\<not> well_formed_paths spec \<longrightarrow>
      operations spec = Inl TypeError \<and>
      httpSamplers parseURL stringify year rnd spec b d = Some (Inl TypeError)) \<and>
   (well_formed_paths spec \<longrightarrow>
      (\<exists>ops. operations spec = Inr ops \<and>
         map (\<lambda>op. (op_path op, op_method op)) ops =
           map (\<lambda>(path, key). (path, toUpperCase key)) (method_keys spec))) \<and>
   (operations spec = Inr ops \<and> list_all (body_synthesizes year rnd spec) ops \<longrightarrow>
      (\<exists>ss'. httpSamplers parseURL stringify year rnd spec b d = Some (Inr ss'))) \<and>
   (httpSamplers parseURL stringify year rnd spec b d = Some (Inr ss) \<longrightarrow>
      map (\<lambda>s. (sampler_path s, sampler_method s)) ss =
        map (\<lambda>(path, key).
               (parts_path (mk_urlParts parseURL b) @ pathWithoutParams path, toUpperCase key))
          (method_keys spec)) \<and>
   (operations spec = Inr ops \<and>
    httpSamplers parseURL stringify year rnd spec b d = Some (Inr ss) \<longrightarrow>
      list_all (\<lambda>op. needsBody op \<and> if_truthy (declared_schema (requestBody op)) \<noteq> None \<longrightarrow>
                   (\<exists>v. body_sample year rnd spec op v)) ops) \<and>
   map toUpperCase httpMethods =
     [''GET'', ''POST'', ''PUT'', ''DELETE'', ''PATCH'', ''HEAD'', ''OPTIONS''] \<and>
   itemOperations path (filter (\<lambda>(key, operation). key \<in> set httpMethods) kvs) =
     itemOperations path kvs \<and>
   well_formed_item (Obj (filter (\<lambda>(key, operation). key \<in> set httpMethods) kvs)) =
     well_formed_item (Obj kvs)"
proof -
  have fails: "operations spec = Inl TypeError \<and>
      httpSamplers parseURL stringify year rnd spec b d = Some (Inl TypeError)"
    if "\<not> well_formed_paths spec"
    using that by (simp add: httpSamplers_def operations_total)
  have extracted: "\<exists>ops. operations spec = Inr ops \<and>
         map (\<lambda>op. (op_path op, op_method op)) ops =
           map (\<lambda>(path, key). (path, toUpperCase key)) (method_keys spec)"
    if wf: "well_formed_paths spec"
  proof -
    from wf have "\<exists>ops. operations spec = Inr ops" by (simp add: operations_total)
    then show ?thesis
    proof (elim exE)
      fix ops'
      assume "operations spec = Inr ops'"
      with operations_keys [OF this] show ?thesis by simp
    qed
  qed
  have returns: "\<exists>ss'. httpSamplers parseURL stringify year rnd spec b d = Some (Inr ss')"
    if "operations spec = Inr ops" and "list_all (body_synthesizes year rnd spec) ops"
    using that map_samplers_returns [of year rnd spec ops stringify "mk_urlParts parseURL b" d]
    by (simp add: httpSamplers_def)
  have emitted: "map (\<lambda>s. (sampler_path s, sampler_method s)) ss =
        map (\<lambda>(path, key).
               (parts_path (mk_urlParts parseURL b) @ pathWithoutParams path, toUpperCase key))
          (method_keys spec)"
    if run: "httpSamplers parseURL stringify year rnd spec b d = Some (Inr ss)"
  proof -
    from httpSamplers_InrD [OF run] obtain ops' where ops: "operations spec = Inr ops'"
      and run': "map_samplers stringify year rnd spec (mk_urlParts parseURL b) ops' d = Some (Inr ss)"
      by blast
    have "map (\<lambda>op. (parts_path (mk_urlParts parseURL b) @ pathWithoutParams (op_path op), op_method op)) ops'
          = map (\<lambda>(p, m). (parts_path (mk_urlParts parseURL b) @ pathWithoutParams p, m))
              (map (\<lambda>op. (op_path op, op_method op)) ops')"
      by simp
    also have "\<dots> = map (\<lambda>(path, key).
                    (parts_path (mk_urlParts parseURL b) @ pathWithoutParams path, toUpperCase key))
               (method_keys spec)"
      unfolding operations_keys [OF ops] by (simp add: case_prod_unfold)
    finally show ?thesis
      using map_samplers_ops [OF run'] by simp
  qed
  have sampled: "list_all (\<lambda>op. needsBody op \<and> if_truthy (declared_schema (requestBody op)) \<noteq> None \<longrightarrow>
                   (\<exists>v. body_sample year rnd spec op v)) ops"
    if "operations spec = Inr ops"
      and "httpSamplers parseURL stringify year rnd spec b d = Some (Inr ss)"
  proof -
    from that
    have "map_samplers stringify year rnd spec (mk_urlParts parseURL b) ops d = Some (Inr ss)"
      by (simp add: httpSamplers_def)
    then show ?thesis by (rule map_samplers_sampled)
  qed
  have upper: "map toUpperCase httpMethods =
     [''GET'', ''POST'', ''PUT'', ''DELETE'', ''PATCH'', ''HEAD'', ''OPTIONS'']"
    by (simp add: httpMethods_def toUpperCase_def toUpperChar_def)
  have other_keys: "well_formed_item (Obj (filter (\<lambda>(key, operation). key \<in> set httpMethods) kvs)) =
     well_formed_item (Obj kvs)"
    by (induction kvs) (auto simp: well_formed_item_def nullish_def)
  show ?thesis
    apply (intro conjI impI)
    subgoal by (rule fails [THEN conjunct1])
    subgoal by (rule fails [THEN conjunct2])
    subgoal by (rule extracted)
    subgoal by (elim conjE) (rule returns)
    subgoal by (rule emitted)
    subgoal by (elim conjE) (rule sampled)
    subgoal by (rule upper)
    subgoal by (rule itemOperations_filter)
    subgoal by (rule other_keys)
    done
qed

lemma example_bodies_operations:
  "operations example_bodies =
     Inr [mk_operation ''/notes'' ''get'' (Obj []),
          mk_operation ''/notes'' ''post'' example_post,
          mk_operation ''/notes'' ''put'' example_put]"
  by (simp add: operations_def example_bodies_def get_def or_empty_def if_truthy_def
        httpMethods_def example_post_def example_put_def)

lemma example_bodies_run:
  "httpSamplers example_parseURL example_stringify 2024 (\<lambda>_. 0) example_bodies
     ''https://api.example.com'' 0 = Some (Inr example_bodies_samplers)"
  by (simp add: httpSamplers_def example_bodies_operations mk_sampler_def needsBody_def
        mk_operation_def toUpperCase_def toUpperChar_def samplerName_def get_def if_truthy_def
        mk_urlParts_def example_parseURL_def generateRequestBody_def example_post_def
        example_put_def generateSampleJson.simps resolveSchema_def first_example_def
        stringSample_def byName_def example_stringify_def escape_quotes_def
        example_bodies_samplers_def body_block_def JSON_stringify_def)

lemma example_bodies_synthesize:
  "list_all (body_synthesizes year rnd example_bodies)
     [mk_operation ''/notes'' ''get'' (Obj []),
      mk_operation ''/notes'' ''post'' example_post,
      mk_operation ''/notes'' ''put'' example_put]"
  by (simp add: body_synthesizes_def needsBody_def mk_operation_def toUpperCase_def
        toUpperChar_def declared_schema_def get_def if_truthy_def example_post_def
        example_put_def generateSampleJson.simps resolveSchema_def first_example_def
        stringSample_def byName_def)

lemma example_bodies_keys:
  "method_keys example_bodies = [(''/notes'', ''get''), (''/notes'', ''post''), (''/notes'', ''put'')]"
  by (simp add: method_keys_def example_bodies_def get_def or_empty_def if_truthy_def
        httpMethods_def)

lemma example_bodies_well_formed: "well_formed_paths example_bodies"
  by (simp add: well_formed_paths_def well_formed_item_def nullish_def example_bodies_def
        get_def or_empty_def if_truthy_def example_post_def example_put_def)

lemma example_null_operation_ill_formed: "\<not> well_formed_paths example_null_operation"
  by (simp add: well_formed_paths_def well_formed_item_def nullish_def
        example_null_operation_def get_def or_empty_def if_truthy_def httpMethods_def)

text \<open>
  The theorem at a document with a GET, a POST with a JSON body schema and a PUT, where the
  conversion returns three samplers, and at the document with \<^verbatim>\<open>null\<close> under \<^verbatim>\<open>post\<close>, where
  it fails.
\<close>

theorem C7_one_sampler_per_method_key_witness:
  "(\<exists>ops. operations example_bodies = Inr ops \<and>
      map (\<lambda>op. (op_path op, op_method op)) ops =
        [(''/notes'', ''GET''), (''/notes'', ''POST''), (''/notes'', ''PUT'')]) \<and>
   (\<exists>ss'. httpSamplers example_parseURL example_stringify 2024 (\<lambda>_. 0) example_bodies
            ''https://api.example.com'' 0 = Some (Inr ss')) \<and>
   map (\<lambda>s. (sampler_path s, sampler_method s)) example_bodies_samplers =
     [(''/notes'', ''GET''), (''/notes'', ''POST''), (''/notes'', ''PUT'')] \<and>
   list_all (\<lambda>op. needsBody op \<and> if_truthy (declared_schema (requestBody op)) \<noteq> None \<longrightarrow>
                (\<exists>v. body_sample 2024 (\<lambda>_. 0) example_bodies op v))
     [mk_operation ''/notes'' ''get'' (Obj []),
      mk_operation ''/notes'' ''post'' example_post,
      mk_operation ''/notes'' ''put'' example_put] \<and>
   operations example_null_operation = Inl TypeError \<and>
   httpSamplers example_parseURL example_stringify 2024 (\<lambda>_. 0) example_null_operation
     ''https://api.example.com'' 0 = Some (Inl TypeError)"
proof -
  have parts: "parts_path (mk_urlParts example_parseURL ''https://api.example.com'') = []"
    by (simp add: mk_urlParts_def example_parseURL_def)
  note inst = C7_one_sampler_per_method_key [of example_bodies example_parseURL example_stringify
      2024 "\<lambda>_. 0" "''https://api.example.com''" 0
      "[mk_operation ''/notes'' ''get'' (Obj []),
        mk_operation ''/notes'' ''post'' example_post,
        mk_operation ''/notes'' ''put'' example_put]" example_bodies_samplers]
  from inst [THEN conjunct2, THEN conjunct1, rule_format, OF example_bodies_well_formed]
  have 1: "\<exists>ops. operations example_bodies = Inr ops \<and>
      map (\<lambda>op. (op_path op, op_method op)) ops =
        [(''/notes'', ''GET''), (''/notes'', ''POST''), (''/notes'', ''PUT'')]"
    unfolding example_bodies_keys by (simp add: toUpperCase_def toUpperChar_def)
  from inst [THEN conjunct2, THEN conjunct2, THEN conjunct1, rule_format]
    example_bodies_operations example_bodies_synthesize
  have 2: "\<exists>ss'. httpSamplers example_parseURL example_stringify 2024 (\<lambda>_. 0) example_bodies
            ''https://api.example.com'' 0 = Some (Inr ss')"
    by (simp only:)
  from inst [THEN conjunct2, THEN conjunct2, THEN conjunct2, THEN conjunct1, rule_format,
      OF example_bodies_run]
  have 3: "map (\<lambda>s. (sampler_path s, sampler_method s)) example_bodies_samplers =
     [(''/notes'', ''GET''), (''/notes'', ''POST''), (''/notes'', ''PUT'')]"
    unfolding example_bodies_keys parts by (simp add: toUpperCase_def toUpperChar_def)
  from example_bodies_operations example_bodies_run
  have "operations example_bodies =
          Inr [mk_operation ''/notes'' ''get'' (Obj []),
               mk_operation ''/notes'' ''post'' example_post,
               mk_operation ''/notes'' ''put'' example_put] \<and>
        httpSamplers example_parseURL example_stringify 2024 (\<lambda>_. 0) example_bodies
          ''https://api.example.com'' 0 = Some (Inr example_bodies_samplers)"
    by (rule conjI)
  from inst [THEN conjunct2, THEN conjunct2, THEN conjunct2, THEN conjunct2, THEN conjunct1,
      rule_format, OF this]
  have 5: "list_all (\<lambda>op. needsBody op \<and> if_truthy (declared_schema (requestBody op)) \<noteq> None \<longrightarrow>
                (\<exists>v. body_sample 2024 (\<lambda>_. 0) example_bodies op v))
     [mk_operation ''/notes'' ''get'' (Obj []),
      mk_operation ''/notes'' ''post'' example_post,
      mk_operation ''/notes'' ''put'' example_put]" .
  from C7_one_sampler_per_method_key [of example_null_operation example_parseURL
      example_stringify 2024 "\<lambda>_. 0" "''https://api.example.com''" 0,
      THEN conjunct1, rule_format, OF example_null_operation_ill_formed]
  have 4: "operations example_null_operation = Inl TypeError \<and>
   httpSamplers example_parseURL example_stringify 2024 (\<lambda>_. 0) example_null_operation
     ''https://api.example.com'' 0 = Some (Inl TypeError)" .
  from 1 2 3 5 4 show ?thesis by (intro conjI) (simp_all only:)
qed

text \<open>
  The claim as it stands fails at the document with \<^verbatim>\<open>null\<close> under \<^verbatim>\<open>post\<close>: it has two
  method keys, and the conversion ends in a TypeError with no sampler at all.
\<close>

theorem C7_counterexample:
  "method_keys example_null_operation = [(''/a'', ''get''), (''/a'', ''post'')] \<and>
   httpSamplers example_parseURL example_stringify 2024 (\<lambda>_. 0) example_null_operation
     ''https://api.example.com'' 0 = Some (Inl TypeError)"
  by (simp add: method_keys_def httpSamplers_def operations_def example_null_operation_def
        get_def or_empty_def if_truthy_def httpMethods_def)


subsection \<open>Request bodies\<close>

lemma leaf_samples_defined:
  "bounded A lo hi dflt st = Inr (v, st') \<Longrightarrow> v \<noteq> Undefined"
  "integerSample year rnd A None st = Inr (v, st') \<Longrightarrow> v \<noteq> Undefined"
  "numberSample A None st = Inr (v, st') \<Longrightarrow> v \<noteq> Undefined"
  "booleanSample None st = Inr (v, st') \<Longrightarrow> v \<noteq> Undefined"
  by (auto simp: bounded_def integerSample_def numberSample_def booleanSample_def byName_def
        Math_max_def Math_min_def split: option.splits sum.splits)

lemma stringSample_any_state:
  "stringSample A None st = Inr (v, st') \<Longrightarrow> stringSample A None st2 = Inr (v, st2)"
  by (auto simp: stringSample_def byName_def split: option.splits sum.splits if_splits)

lemma undefined_sample_any_state:
  assumes "generateSampleJson year rnd spec schema None st = Some (Inr (Undefined, st'))"
  shows "generateSampleJson year rnd spec schema None st2 = Some (Inr (Undefined, st2))"
proof -
  from assms have "\<exists>A. resolveSchema schema spec = Inr A"
    by (subst (asm) generateSampleJson.simps) (cases "resolveSchema schema spec"; simp)
  then obtain A where A: "resolveSchema schema spec = Inr A" by (elim exE)
  show ?thesis
  proof (cases "get A ''example''")
    case (Some e)
    with assms A have "e = Undefined"
      by (subst (asm) generateSampleJson.simps) simp
    with Some A show ?thesis
      by (subst generateSampleJson.simps) simp
  next
    case None
    show ?thesis
    proof (cases "first_example (get A ''examples'')")
      case (Some x)
      with assms A None have "x = Undefined"
        by (subst (asm) generateSampleJson.simps) simp
      with Some A None show ?thesis
        by (subst generateSampleJson.simps) simp
    next
      case noex: None
      from assms A None noex have chain:
        "(if get A ''type'' = Some (Str ''object'') then
            (case if_truthy (get A ''properties'') of
               Some properties \<Rightarrow>
                 Option.bind
                   (for_entries
                      (\<lambda>prop key s. generateSampleJson year rnd spec prop (Some key) s)
                      (entries properties) [] st)
                   (\<lambda>r. case r of
                           Inl e \<Rightarrow> Some (Inl e)
                         | Inr (obj, st') \<Rightarrow> Some (Inr (Obj obj, st')))
             | None \<Rightarrow> Some (Inr (Obj [], st)))
          else if get A ''type'' = Some (Str ''array'') then
            (case if_truthy (get A ''items'') of
               Some items \<Rightarrow>
                 Option.bind
                   (generateSampleJson year rnd spec items None st)
                   (\<lambda>r. case r of
                           Inl e \<Rightarrow> Some (Inl e)
                         | Inr (v, st') \<Rightarrow> Some (Inr (Arr [v], st')))
             | None \<Rightarrow> Some (Inr (Arr [], st)))
          else if get A ''type'' = Some (Str ''string'') then
            Some (stringSample A None st)
          else if get A ''type'' = Some (Str ''integer'') then
            Some (integerSample year rnd A None st)
          else if get A ''type'' = Some (Str ''number'') then
            Some (numberSample A None st)
          else if get A ''type'' = Some (Str ''boolean'') then
            Some (booleanSample None st)
          else Some (Inr (Null, st))) = Some (Inr (Undefined, st'))"
        by (subst (asm) generateSampleJson.simps) simp
      have no_object: "get A ''type'' \<noteq> Some (Str ''object'')"
      proof
        assume ty: "get A ''type'' = Some (Str ''object'')"
        show False
        proof (cases "if_truthy (get A ''properties'')")
          case None
          with chain ty show False by simp
        next
          case (Some properties)
          with chain ty have "Option.bind
                   (for_entries
                      (\<lambda>prop key s. generateSampleJson year rnd spec prop (Some key) s)
                      (entries properties) [] st)
                   (\<lambda>r. case r of
                           Inl e \<Rightarrow> Some (Inl e)
                         | Inr (obj, st') \<Rightarrow> Some (Inr (Obj obj, st')))
                 = Some (Inr (Undefined, st'))"
            by simp
          from bind_InrD [OF this] show False
          proof (elim exE conjE)
            fix x :: "(string \<times> jsval) list \<times> synth_state"
            assume "(case x of (obj, st') \<Rightarrow> Some (Inr (Obj obj, st')))
                      = Some (Inr (Undefined, st'))"
            then show False by (cases x) simp
          qed
        qed
      qed
      have no_array: "get A ''type'' \<noteq> Some (Str ''array'')"
      proof
        assume ty: "get A ''type'' = Some (Str ''array'')"
        show False
        proof (cases "if_truthy (get A ''items'')")
          case None
          with chain ty show False by simp
        next
          case (Some items)
          with chain ty have "Option.bind
                   (generateSampleJson year rnd spec items None st)
                   (\<lambda>r. case r of
                           Inl e \<Rightarrow> Some (Inl e)
                         | Inr (v, st') \<Rightarrow> Some (Inr (Arr [v], st')))
                 = Some (Inr (Undefined, st'))"
            by simp
          from bind_InrD [OF this] show False
          proof (elim exE conjE)
            fix x :: "jsval \<times> synth_state"
            assume "(case x of (v, st') \<Rightarrow> Some (Inr (Arr [v], st')))
                      = Some (Inr (Undefined, st'))"
            then show False by (cases x) simp
          qed
        qed
      qed
      have ty: "get A ''type'' = Some (Str ''string'')"
      proof (rule ccontr)
        assume "get A ''type'' \<noteq> Some (Str ''string'')"
        with chain no_object no_array
        have "(if get A ''type'' = Some (Str ''integer'') then
                 Some (integerSample year rnd A None st)
               else if get A ''type'' = Some (Str ''number'') then
                 Some (numberSample A None st)
               else if get A ''type'' = Some (Str ''boolean'') then
                 Some (booleanSample None st)
               else Some (Inr (Null, st))) = Some (Inr (Undefined, st'))"
          by simp
        then show False
          using leaf_samples_defined(2) [of year rnd A st Undefined st']
            leaf_samples_defined(3) [of A st Undefined st']
            leaf_samples_defined(4) [of st Undefined st']
          by (simp split: if_splits)
      qed
      with chain have str: "stringSample A None st = Inr (Undefined, st')"
        by simp
      from stringSample_any_state [OF str, of st2] A None noex ty show ?thesis
        by (subst generateSampleJson.simps) simp
    qed
  qed
qed


lemma body_block_stringify:
  assumes "\<And>v. stringify v \<noteq> []"
  shows "body_block (JSON_stringify stringify v) =
           (if v = Undefined then None else Some (escape_quotes (stringify v)))"
  by (cases v) (simp_all add: body_block_def JSON_stringify_def assms)

lemma body_block_empty: "body_block (Some []) = None"
  by (simp add: body_block_def)

lemma mk_sampler_body:
  assumes "mk_sampler stringify year rnd spec parts op d = Some (Inr (s, d'))"
    and "\<And>v. stringify v \<noteq> []"
  shows "(bodyDataProp s \<noteq> None \<longleftrightarrow>
            op_method op \<in> set [''POST'', ''PUT'', ''PATCH''] \<and>
            (\<exists>v. body_sample year rnd spec op v \<and> v \<noteq> Undefined)) \<and>
         (\<forall>t. bodyDataProp s = Some t \<longrightarrow>
            (\<exists>v. body_sample year rnd spec op v \<and> t = escape_quotes (stringify v)))"
proof -
  from mk_sampler_InrD [OF assms(1)] have "\<exists>body.
      (if needsBody op then generateRequestBody stringify year rnd spec (requestBody op) d
       else Some (Inr (Some [], d))) = Some (Inr (body, d'))
      \<and> bodyDataProp s = body_block body"
    by auto
  then obtain body where
    body: "(if needsBody op then generateRequestBody stringify year rnd spec (requestBody op) d
            else Some (Inr (Some [], d))) = Some (Inr (body, d'))"
    and s: "bodyDataProp s = body_block body"
    by (elim exE conjE)
  show ?thesis
  proof (cases "needsBody op")
    case False
    with body s have "bodyDataProp s = None" by (auto simp: body_block_empty)
    with False show ?thesis by (simp add: needsBody_def)
  next
    case True
    with body have gen: "generateRequestBody stringify year rnd spec (requestBody op) d
                      = Some (Inr (body, d'))"
      by simp
    show ?thesis
    proof (cases "if_truthy (declared_schema (requestBody op))")
      case None
      with gen s have "bodyDataProp s = None"
        by (auto simp: generateRequestBody_schema body_block_empty)
      with None show ?thesis by (simp add: body_sample_def)
    next
      case (Some schema)
      from mk_sampler_schemaD [OF assms(1) True Some] obtain v st where
        run: "generateSampleJson year rnd spec schema None \<lparr>idCounter = 1, draws = d\<rparr>
                = Some (Inr (v, st))"
        and bv: "bodyDataProp s = body_block (JSON_stringify stringify v)"
        by (elim exE conjE)
      from bv have bdp: "bodyDataProp s =
          (if v = Undefined then None else Some (escape_quotes (stringify v)))"
        by (simp add: body_block_stringify [OF assms(2)])
      from Some run have sample: "body_sample year rnd spec op v"
        unfolding body_sample_def by blast
      have undefined_always: "v' = Undefined"
        if "v = Undefined" and "body_sample year rnd spec op v'" for v'
      proof -
        from that(2) Some obtain d2 st2 where
          2: "generateSampleJson year rnd spec schema None \<lparr>idCounter = 1, draws = d2\<rparr>
                = Some (Inr (v', st2))"
          unfolding body_sample_def by auto
        from run that(1) undefined_sample_any_state [of year rnd spec schema
            "\<lparr>idCounter = 1, draws = d\<rparr>" st "\<lparr>idCounter = 1, draws = d2\<rparr>"]
        have "generateSampleJson year rnd spec schema None \<lparr>idCounter = 1, draws = d2\<rparr>
                = Some (Inr (Undefined, \<lparr>idCounter = 1, draws = d2\<rparr>))"
          by simp
        with 2 show ?thesis by simp
      qed
      have iff: "bodyDataProp s \<noteq> None \<longleftrightarrow>
            op_method op \<in> set [''POST'', ''PUT'', ''PATCH''] \<and>
            (\<exists>v. body_sample year rnd spec op v \<and> v \<noteq> Undefined)"
      proof (cases "v = Undefined")
        case True
        with bdp undefined_always show ?thesis by auto
      next
        case False
        with bdp sample \<open>needsBody op\<close> show ?thesis
          unfolding needsBody_def by auto
      qed
      have "\<exists>v. body_sample year rnd spec op v \<and> t = escape_quotes (stringify v)"
        if "bodyDataProp s = Some t" for t
        using that bdp sample by (cases "v = Undefined") auto
      with iff show ?thesis by blast
    qed
  qed
qed

lemma map_samplers_body:
  assumes "\<And>v. stringify v \<noteq> []"
  shows "map_samplers stringify year rnd spec parts ops d = Some (Inr ss) \<Longrightarrow>
     list_all2
       (\<lambda>op s.
          (bodyDataProp s \<noteq> None \<longleftrightarrow>
             op_method op \<in> set [''POST'', ''PUT'', ''PATCH''] \<and>
             (\<exists>v. body_sample year rnd spec op v \<and> v \<noteq> Undefined)) \<and>
          (\<forall>t. bodyDataProp s = Some t \<longrightarrow>
             (\<exists>v. body_sample year rnd spec op v \<and> t = escape_quotes (stringify v))))
       ops ss"
proof (induction ops arbitrary: d ss)
  case Nil
  then show ?case by simp
next
  case (Cons op ops)
  from map_samplers_ConsD [OF Cons.prems] obtain s0 d' ss' where
    s0: "mk_sampler stringify year rnd spec parts op d = Some (Inr (s0, d'))"
    and rest: "map_samplers stringify year rnd spec parts ops d' = Some (Inr ss')"
    and ss: "ss = s0 # ss'"
    by blast
  from mk_sampler_body [OF s0 assms] Cons.IH [OF rest] ss show ?case
    by simp
qed

lemma escape_quotes_Cons:
  "escape_quotes (c # cs) = (if c = CHR 0x22 then ''&quot;'' else [c]) @ escape_quotes cs"
  by (simp add: escape_quotes_def)

text \<open>
  C8, as the code has it. What \<^verbatim>\<open>JSON.stringify\<close> writes for a value is never the empty
  text. Then the conversion returns whenever the operations are extracted and the body
  of each can be synthesized; and in every conversion that returns, a sampler has the raw
  body exactly when the method of its operation is POST, PUT or PATCH, the value at
  \<^verbatim>\<open>requestBody.content["application/json"].schema\<close> is truthy and the sample synthesized
  for it is not \<^verbatim>\<open>undefined\<close>. A schema that is declared but falsy, and a schema whose
  sample is \<^verbatim>\<open>undefined\<close>, give no body. The body text is what \<^verbatim>\<open>JSON.stringify\<close> writes for
  a sample of the schema, with every double quote replaced by \<^verbatim>\<open>&quot;\<close> and every other
  character kept; for each sampler the sample is the one synthesized with the counter at 1
  at the position of the random sequence where the sampler is made, and the next sampler
  is made where this synthesis ended.
\<close>

theorem C8_body_iff_defined_sample:
  assumes "\<And>v. stringify v \<noteq> []"
  shows
    "(operations spec = Inr ops \<and> list_all (body_synthesizes year rnd spec) ops \<longrightarrow>
        (\<exists>ss'. httpSamplers parseURL stringify year rnd spec b d = Some (Inr ss') \<and>
           list_all2
             (\<lambda>op s.
                (bodyDataProp s \<noteq> None \<longleftrightarrow>
                   op_method op \<in> set [''POST'', ''PUT'', ''PATCH''] \<and>
                   (\<exists>v. body_sample year rnd spec op v \<and> v \<noteq> Undefined)) \<and>
                (\<forall>t. bodyDataProp s = Some t \<longrightarrow>
                   (\<exists>v. body_sample year rnd spec op v \<and> t = escape_quotes (stringify v))))
             ops ss')) \<and>
     (operations spec = Inr ops \<and>
      httpSamplers parseURL stringify year rnd spec b d = Some (Inr ss) \<longrightarrow>
        list_all2
          (\<lambda>op s.
             (bodyDataProp s \<noteq> None \<longleftrightarrow>
                op_method op \<in> set [''POST'', ''PUT'', ''PATCH''] \<and>
                (\<exists>v. body_sample year rnd spec op v \<and> v \<noteq> Undefined)) \<and>
             (\<forall>t. bodyDataProp s = Some t \<longrightarrow>
                (\<exists>v. body_sample year rnd spec op v \<and> t = escape_quotes (stringify v))))
          ops ss) \<and>
     (mk_sampler stringify year rnd spec parts op d0 = Some (Inr (s, d1)) \<and> needsBody op \<and>
      if_truthy (declared_schema (requestBody op)) = Some schema \<longrightarrow>
        (\<exists>v st.
           generateSampleJson year rnd spec schema None \<lparr>idCounter = 1, draws = d0\<rparr>
             = Some (Inr (v, st)) \<and>
           d1 = draws st \<and>
           bodyDataProp s =
             (if v = Undefined then None else Some (escape_quotes (stringify v))))) \<and>
     escape_quotes [] = [] \<and>
     (\<forall>c cs. escape_quotes (c # cs) =
        (if c = CHR 0x22 then ''&quot;'' else [c]) @ escape_quotes cs)"
proof -
  have bodies: "list_all2
          (\<lambda>op s.
             (bodyDataProp s \<noteq> None \<longleftrightarrow>
                op_method op \<in> set [''POST'', ''PUT'', ''PATCH''] \<and>
                (\<exists>v. body_sample year rnd spec op v \<and> v \<noteq> Undefined)) \<and>
             (\<forall>t. bodyDataProp s = Some t \<longrightarrow>
                (\<exists>v. body_sample year rnd spec op v \<and> t = escape_quotes (stringify v))))
          ops ss0"
    if "operations spec = Inr ops"
      and "httpSamplers parseURL stringify year rnd spec b d = Some (Inr ss0)" for ss0
  proof -
    from that
    have "map_samplers stringify year rnd spec (mk_urlParts parseURL b) ops d = Some (Inr ss0)"
      by (simp add: httpSamplers_def)
    from map_samplers_body [OF assms this] show ?thesis .
  qed
  have returns: "\<exists>ss'. httpSamplers parseURL stringify year rnd spec b d = Some (Inr ss') \<and>
           list_all2
             (\<lambda>op s.
                (bodyDataProp s \<noteq> None \<longleftrightarrow>
                   op_method op \<in> set [''POST'', ''PUT'', ''PATCH''] \<and>
                   (\<exists>v. body_sample year rnd spec op v \<and> v \<noteq> Undefined)) \<and>
                (\<forall>t. bodyDataProp s = Some t \<longrightarrow>
                   (\<exists>v. body_sample year rnd spec op v \<and> t = escape_quotes (stringify v))))
             ops ss'"
    if ops: "operations spec = Inr ops" and syn: "list_all (body_synthesizes year rnd spec) ops"
  proof -
    from map_samplers_returns [OF syn, of stringify "mk_urlParts parseURL b" d] ops
    have "\<exists>ss'. httpSamplers parseURL stringify year rnd spec b d = Some (Inr ss')"
      by (simp add: httpSamplers_def)
    then show ?thesis
    proof (elim exE)
      fix ss'
      assume run: "httpSamplers parseURL stringify year rnd spec b d = Some (Inr ss')"
      from bodies [OF ops run] run show ?thesis by (intro exI [of _ ss'] conjI)
    qed
  qed
  have position: "\<exists>v st.
           generateSampleJson year rnd spec schema None \<lparr>idCounter = 1, draws = d0\<rparr>
             = Some (Inr (v, st)) \<and>
           d1 = draws st \<and>
           bodyDataProp s =
             (if v = Undefined then None else Some (escape_quotes (stringify v)))"
    if "mk_sampler stringify year rnd spec parts op d0 = Some (Inr (s, d1))" and "needsBody op"
      and "if_truthy (declared_schema (requestBody op)) = Some schema"
    using mk_sampler_schemaD [OF that] by (simp add: body_block_stringify [OF assms])
  show ?thesis
    apply (intro conjI impI allI)
    subgoal by (elim conjE) (rule returns)
    subgoal by (elim conjE) (rule bodies)
    subgoal by (elim conjE) (rule position)
    subgoal by (simp add: escape_quotes_def)
    subgoal by (rule escape_quotes_Cons)
    done
qed

lemma example_post_sampler:
  "mk_sampler example_stringify 2024 (\<lambda>_. 0) example_bodies
     (mk_urlParts example_parseURL ''https://api.example.com'')
     (mk_operation ''/notes'' ''post'' example_post) 0
   = Some (Inr (example_bodies_samplers ! 1, 0))"
  by (simp add: mk_sampler_def needsBody_def
        mk_operation_def toUpperCase_def toUpperChar_def samplerName_def get_def if_truthy_def
        mk_urlParts_def example_parseURL_def generateRequestBody_def example_post_def
        generateSampleJson.simps resolveSchema_def first_example_def
        stringSample_def byName_def example_stringify_def escape_quotes_def
        example_bodies_samplers_def body_block_def JSON_stringify_def)

lemma example_post_schema:
  "needsBody (mk_operation ''/notes'' ''post'' example_post) \<and>
   if_truthy (declared_schema (requestBody (mk_operation ''/notes'' ''post'' example_post)))
     = Some (Obj [(''type'', Str ''string'')])"
  by (simp add: needsBody_def mk_operation_def toUpperCase_def toUpperChar_def
        declared_schema_def get_def if_truthy_def example_post_def)

lemma example_stringify_text: "example_stringify v \<noteq> []"
  by (cases v) (simp_all add: example_stringify_def)

lemma example_no_sample_operations:
  "operations example_no_sample =
     Inr [mk_operation ''/notes'' ''post'' (json_body enum_without_element),
          mk_operation ''/notes'' ''put'' (json_body (Bool False))]"
  by (simp add: operations_def example_no_sample_def get_def or_empty_def if_truthy_def
        httpMethods_def json_body_def)

lemma example_no_sample_run:
  "httpSamplers example_parseURL example_stringify 2024 (\<lambda>_. 0) example_no_sample
     ''https://api.example.com'' 0 = Some (Inr example_no_sample_samplers)"
  by (simp add: httpSamplers_def example_no_sample_operations mk_sampler_def needsBody_def
        mk_operation_def toUpperCase_def toUpperChar_def samplerName_def get_def if_truthy_def
        mk_urlParts_def example_parseURL_def generateRequestBody_def json_body_def
        enum_without_element_def generateSampleJson.simps resolveSchema_def first_example_def
        stringSample_def byName_def gt_zero_def body_block_def JSON_stringify_def
        example_no_sample_samplers_def)

text \<open>
  The theorem at a GET, a POST with a JSON schema and a PUT with a schema for plain text
  only, where the bodies can be synthesized, and at the document whose two schemas give
  no body.
\<close>

theorem C8_body_iff_defined_sample_witness:
  "(\<exists>ss'. httpSamplers example_parseURL example_stringify 2024 (\<lambda>_. 0) example_bodies
             ''https://api.example.com'' 0 = Some (Inr ss') \<and>
      list_all2
        (\<lambda>op s.
           (bodyDataProp s \<noteq> None \<longleftrightarrow>
              op_method op \<in> set [''POST'', ''PUT'', ''PATCH''] \<and>
              (\<exists>v. body_sample 2024 (\<lambda>_. 0) example_bodies op v \<and> v \<noteq> Undefined)) \<and>
           (\<forall>t. bodyDataProp s = Some t \<longrightarrow>
              (\<exists>v. body_sample 2024 (\<lambda>_. 0) example_bodies op v \<and>
                 t = escape_quotes (example_stringify v))))
        [mk_operation ''/notes'' ''get'' (Obj []),
         mk_operation ''/notes'' ''post'' example_post,
         mk_operation ''/notes'' ''put'' example_put]
        ss') \<and>
   list_all2
     (\<lambda>op s.
        (bodyDataProp s \<noteq> None \<longleftrightarrow>
           op_method op \<in> set [''POST'', ''PUT'', ''PATCH''] \<and>
           (\<exists>v. body_sample 2024 (\<lambda>_. 0) example_no_sample op v \<and> v \<noteq> Undefined)) \<and>
        (\<forall>t. bodyDataProp s = Some t \<longrightarrow>
           (\<exists>v. body_sample 2024 (\<lambda>_. 0) example_no_sample op v \<and>
              t = escape_quotes (example_stringify v))))
     [mk_operation ''/notes'' ''post'' (json_body enum_without_element),
      mk_operation ''/notes'' ''put'' (json_body (Bool False))]
     example_no_sample_samplers \<and>
   (\<exists>v st.
      generateSampleJson 2024 (\<lambda>_. 0) example_bodies (Obj [(''type'', Str ''string'')]) None
        \<lparr>idCounter = 1, draws = 0\<rparr> = Some (Inr (v, st)) \<and>
      0 = draws st \<and>
      bodyDataProp (example_bodies_samplers ! 1) =
        (if v = Undefined then None else Some (escape_quotes (example_stringify v))))"
proof (intro conjI)
  from example_bodies_operations example_bodies_synthesize [of 2024 "\<lambda>_. 0"]
  have "operations example_bodies =
          Inr [mk_operation ''/notes'' ''get'' (Obj []),
               mk_operation ''/notes'' ''post'' example_post,
               mk_operation ''/notes'' ''put'' example_put] \<and>
        list_all (body_synthesizes 2024 (\<lambda>_. 0) example_bodies)
          [mk_operation ''/notes'' ''get'' (Obj []),
           mk_operation ''/notes'' ''post'' example_post,
           mk_operation ''/notes'' ''put'' example_put]"
    by (rule conjI)
  from C8_body_iff_defined_sample [OF example_stringify_text, THEN conjunct1, rule_format, OF this]
  show "\<exists>ss'. httpSamplers example_parseURL example_stringify 2024 (\<lambda>_. 0) example_bodies
             ''https://api.example.com'' 0 = Some (Inr ss') \<and>
      list_all2
        (\<lambda>op s.
           (bodyDataProp s \<noteq> None \<longleftrightarrow>
              op_method op \<in> set [''POST'', ''PUT'', ''PATCH''] \<and>
              (\<exists>v. body_sample 2024 (\<lambda>_. 0) example_bodies op v \<and> v \<noteq> Undefined)) \<and>
           (\<forall>t. bodyDataProp s = Some t \<longrightarrow>
              (\<exists>v. body_sample 2024 (\<lambda>_. 0) example_bodies op v \<and>
                 t = escape_quotes (example_stringify v))))
        [mk_operation ''/notes'' ''get'' (Obj []),
         mk_operation ''/notes'' ''post'' example_post,
         mk_operation ''/notes'' ''put'' example_put]
        ss'" .
next
  from example_no_sample_operations example_no_sample_run
  have "operations example_no_sample =
          Inr [mk_operation ''/notes'' ''post'' (json_body enum_without_element),
               mk_operation ''/notes'' ''put'' (json_body (Bool False))] \<and>
        httpSamplers example_parseURL example_stringify 2024 (\<lambda>_. 0) example_no_sample
          ''https://api.example.com'' 0 = Some (Inr example_no_sample_samplers)"
    by (rule conjI)
  from C8_body_iff_defined_sample [OF example_stringify_text, THEN conjunct2, THEN conjunct1,
      rule_format, OF this]
  show "list_all2
     (\<lambda>op s.
        (bodyDataProp s \<noteq> None \<longleftrightarrow>
           op_method op \<in> set [''POST'', ''PUT'', ''PATCH''] \<and>
           (\<exists>v. body_sample 2024 (\<lambda>_. 0) example_no_sample op v \<and> v \<noteq> Undefined)) \<and>
        (\<forall>t. bodyDataProp s = Some t \<longrightarrow>
           (\<exists>v. body_sample 2024 (\<lambda>_. 0) example_no_sample op v \<and>
              t = escape_quotes (example_stringify v))))
     [mk_operation ''/notes'' ''post'' (json_body enum_without_element),
      mk_operation ''/notes'' ''put'' (json_body (Bool False))]
     example_no_sample_samplers" .
next
  from example_post_sampler example_post_schema
  have "mk_sampler example_stringify 2024 (\<lambda>_. 0) example_bodies
          (mk_urlParts example_parseURL ''https://api.example.com'')
          (mk_operation ''/notes'' ''post'' example_post) 0
        = Some (Inr (example_bodies_samplers ! 1, 0)) \<and>
        needsBody (mk_operation ''/notes'' ''post'' example_post) \<and>
        if_truthy (declared_schema (requestBody (mk_operation ''/notes'' ''post'' example_post)))
          = Some (Obj [(''type'', Str ''string'')])"
    by (rule conjI)
  from C8_body_iff_defined_sample [OF example_stringify_text, THEN conjunct2, THEN conjunct2,
      THEN conjunct1, rule_format, OF this]
  show "\<exists>v st.
      generateSampleJson 2024 (\<lambda>_. 0) example_bodies (Obj [(''type'', Str ''string'')]) None
        \<lparr>idCounter = 1, draws = 0\<rparr> = Some (Inr (v, st)) \<and>
      0 = draws st \<and>
      bodyDataProp (example_bodies_samplers ! 1) =
        (if v = Undefined then None else Some (escape_quotes (example_stringify v)))" .
qed

text \<open>
  The claim as it stands fails at the document whose two operations, a POST and a PUT,
  both declare a JSON body schema: the conversion returns, and neither sampler has a body.
\<close>

theorem C8_counterexample:
  "operations example_no_sample =
     Inr [mk_operation ''/notes'' ''post'' (json_body enum_without_element),
          mk_operation ''/notes'' ''put'' (json_body (Bool False))] \<and>
   declared_schema (requestBody (mk_operation ''/notes'' ''post'' (json_body enum_without_element)))
     = Some enum_without_element \<and>
   declared_schema (requestBody (mk_operation ''/notes'' ''put'' (json_body (Bool False))))
     = Some (Bool False) \<and>
   httpSamplers example_parseURL example_stringify 2024 (\<lambda>_. 0) example_no_sample
     ''https://api.example.com'' 0 = Some (Inr example_no_sample_samplers) \<and>
   map (\<lambda>s. (sampler_method s, bodyDataProp s)) example_no_sample_samplers =
     [(''POST'', None), (''PUT'', None)]"
  by (simp add: httpSamplers_def operations_def example_no_sample_def or_empty_def
        httpMethods_def mk_sampler_def needsBody_def
        mk_operation_def toUpperCase_def toUpperChar_def samplerName_def get_def if_truthy_def
        mk_urlParts_def example_parseURL_def generateRequestBody_def json_body_def
        enum_without_element_def generateSampleJson.simps resolveSchema_def first_example_def
        stringSample_def byName_def gt_zero_def body_block_def JSON_stringify_def
        example_no_sample_samplers_def declared_schema_def)

subsection \<open>Determinism\<close>















end
